theory Spec2Isabelle
  imports Main "HOL-Library.AList" "HOL-Library.Char_ord" "HOL-Library.List_Lexorder"
begin

section \<open>Python values, objects and dictionaries\<close>

text \<open>
  A Python \<open>str\<close> is modelled as a \<open>string\<close>: one \<open>char\<close> stands for one character, and
  \<open>length\<close> is Python's \<open>len\<close>. A Python \<open>int\<close> is an \<open>int\<close>. A \<open>datetime\<close> is the
  \<open>int\<close> number of microseconds since the epoch, so that \<open>timedelta(minutes=m)\<close> is
  \<open>m * 60000000\<close>.

  Objects live in a heap and are named by references; \<open>a is b\<close> is equality of references.
  A \<open>dict\<close> is an association list in insertion order: \<open>d[k] = v\<close> is \<open>AList.update\<close>
  (an existing key keeps its place, a new key goes to the end), \<open>del d[k]\<close> and
  \<open>d.pop(k, None)\<close> are \<open>AList.delete\<close>, \<open>d.get(k)\<close> is \<open>map_of\<close>.
\<close>

type_synonym ref = nat

datatype pyval =
    PyNone
  | PyBool bool
  | PyInt int
  | PyStr string
  | PyList "pyval list"
  | PyDict "(string \<times> pyval) list"
  | PyNamespace "(string \<times> ref) list"
  | PyRestrictedImport ref
  | PyOther string

record heap =
  cells :: "ref \<Rightarrow> pyval"
  next_ref :: ref

definition alloc :: "pyval \<Rightarrow> heap \<Rightarrow> ref \<times> heap" where
  "alloc v h = (next_ref h, h\<lparr>cells := (cells h)(next_ref h := v), next_ref := Suc (next_ref h)\<rparr>)"

fun type_name :: "pyval \<Rightarrow> string" where
  "type_name PyNone = ''NoneType''"
| "type_name (PyBool _) = ''bool''"
| "type_name (PyInt _) = ''int''"
| "type_name (PyStr _) = ''str''"
| "type_name (PyList _) = ''list''"
| "type_name (PyDict _) = ''dict''"
| "type_name (PyNamespace _) = ''dict''"
| "type_name (PyRestrictedImport _) = ''function''"
| "type_name (PyOther t) = t"

type_synonym namespace = "(string \<times> ref) list"

text \<open>
  The keys of \<open>session.namespace\<close> are of type \<open>str\<close>: nothing in the repository files a
  value there under another key. The dict \<open>exec_ns\<close> is handed to the executed code, which
  can store under any hashable key (\<open>globals()[5] = 2\<close>). A \<open>bool\<close> key is an \<open>int\<close> key;
  \<open>OtherKey\<close> stands for a tuple, \<open>None\<close>, a float or another object without a method
  \<open>startswith\<close>, named by its \<open>repr\<close>.
\<close>

datatype pykey = StrKey string | IntKey int | BytesKey string | OtherKey string

type_synonym exec_namespace = "(pykey \<times> ref) list"

subsection \<open>String helpers of the Python runtime\<close>

fun startswith_underscore :: "string \<Rightarrow> bool" where
  "startswith_underscore [] = False"
| "startswith_underscore (c # _) = (c = CHR ''_'')"

definition py_isspace :: "char \<Rightarrow> bool" where
  "py_isspace c = (of_char c \<in> {9, 10, 11, 12, 13, 28, 29, 30, 31, 32, 133, 160 :: nat})"

definition strip :: "string \<Rightarrow> string" where
  "strip s = rev (dropWhile py_isspace (rev (dropWhile py_isspace s)))"

text \<open>\<open>xs[:n]\<close>: a negative bound counts from the end.\<close>

definition py_slice_to :: "int \<Rightarrow> 'a list \<Rightarrow> 'a list" where
  "py_slice_to n xs = (if 0 \<le> n then take (nat n) xs else take (nat (int (length xs) + n)) xs)"

definition digit_char :: "nat \<Rightarrow> char" where
  "digit_char d = char_of (48 + d)"

function str_nat :: "nat \<Rightarrow> string" where
  "str_nat n = (if n < 10 then [digit_char n] else str_nat (n div 10) @ [digit_char (n mod 10)])"
  by pat_completeness auto
termination
  by (relation "measure id") auto

declare str_nat.simps [simp del]

definition str_int :: "int \<Rightarrow> string" where
  "str_int i = (if i < 0 then CHR ''-'' # str_nat (nat (- i)) else str_nat (nat i))"


text \<open>\<open>s.replace("\n", "\\n")\<close>: every newline becomes a backslash followed by \<open>n\<close>.\<close>

definition escape_newlines :: "string \<Rightarrow> string" where
  "escape_newlines s = concat (map (\<lambda>c. if c = CHR 0x0A then [CHR 0x5C, CHR ''n''] else [c]) s)"

section \<open>config.py\<close>

definition SANDBOXED_BLOCKED_MODULES :: "string list" where
  "SANDBOXED_BLOCKED_MODULES =
     [''subprocess'', ''shutil'', ''ctypes'', ''socket'', ''http.server'', ''xmlrpc'',
      ''ftplib'', ''smtplib'', ''telnetlib'', ''webbrowser'', ''antigravity'']"

definition SANDBOXED_BLOCKED_BUILTINS :: "string list" where
  "SANDBOXED_BLOCKED_BUILTINS = [''exec'', ''eval'', ''compile'', ''__import__'']"

record Config =
  timeout_seconds :: int
  max_sessions :: int
  session_ttl_minutes :: int
  max_output_bytes :: int
  max_log_entries :: int
  sandbox_enabled :: bool
  working_directory :: string
  transport :: string
  host :: string
  port :: int

definition default_Config :: "string \<Rightarrow> Config" where
  "default_Config cwd =
     \<lparr>timeout_seconds = 30, max_sessions = 50, session_ttl_minutes = 120,
      max_output_bytes = 1048576, max_log_entries = 200, sandbox_enabled = False,
      working_directory = cwd, transport = ''stdio'', host = ''127.0.0.1'', port = 8000\<rparr>"

section \<open>session.py: records and sessions\<close>

text \<open>
  The fields \<open>status\<close>, \<open>new_vars\<close> and \<open>modified_vars\<close> of \<open>ExecutionRecord\<close> carry the
  prefix \<open>rec_\<close>, because \<open>ExecutionResult\<close> has fields of the same names. The timestamp is
  kept as the clock reading rather than its ISO rendering.
\<close>

record ExecutionRecord =
  timestamp :: int
  code_preview :: string
  rec_status :: string
  rec_new_vars :: "string list"
  rec_modified_vars :: "string list"
  error :: "string option"

record Session =
  session_id :: string
  created_at :: int
  last_used :: int
  namespace :: namespace
  history :: "ExecutionRecord list"

text \<open>
  \<open>timedelta(minutes=m)\<close> holds at most 999999999 days in either direction: it raises
  \<open>OverflowError\<close> unless \<open>-1439999998560 \<le> m \<le> 1439999999999\<close>. \<open>is_expired\<close> reads the
  clock and subtracts before it builds the \<open>timedelta\<close>; \<open>now\<close> is that reading.
\<close>

definition timedelta_minutes :: "int \<Rightarrow> string + int" where
  "timedelta_minutes m =
     (if - 1439999998560 \<le> m \<and> m \<le> 1439999999999 then Inr (m * 60000000)
      else Inl ''OverflowError'')"

definition is_expired :: "Session \<Rightarrow> int \<Rightarrow> int \<Rightarrow> string + bool" where
  "is_expired s ttl_minutes now =
     (case timedelta_minutes ttl_minutes of
        Inl exn \<Rightarrow> Inl exn
      | Inr ttl \<Rightarrow> Inr (now - last_used s > ttl))"

definition touch :: "Session \<Rightarrow> int \<Rightarrow> Session" where
  "touch s now = s\<lparr>last_used := now\<rparr>"

definition variable_summary :: "heap \<Rightarrow> Session \<Rightarrow> (string \<times> string) list" where
  "variable_summary h s =
     map (\<lambda>(k, v). (k, type_name (cells h v)))
       (filter (\<lambda>(k, v). \<not> startswith_underscore k) (namespace s))"

section \<open>The world outside the repository\<close>

text \<open>
  Private functions of the source have a leading underscore, which an Isabelle name cannot
  have: \<open>_truncate\<close>, \<open>_record\<close>, \<open>_make_sandbox_builtins\<close>, \<open>_restricted_import\<close> and
  \<open>_evict_expired\<close> are \<open>u_truncate\<close>, \<open>u_record\<close>, and so on.

  The mutable world is the heap of objects and the number of clock readings taken so far.
  The environment holds what the repository consumes and does not define: the readings of
  \<open>datetime.now\<close>, the reference of the module \<open>builtins\<close>, and the interpreter.

  \<open>run\<close> stands for lines 112 to 123 of executor.py: the alarm, \<open>exec(code, exec_ns)\<close>
  under the redirected streams, and the disarming. It is given the code, the dict
  \<open>exec_ns\<close> and the heap, and it answers with the new heap and with how the block was
  left: normally (with the final \<open>exec_ns\<close>), or by an exception, sorted by the \<open>except\<close>
  clause that catches it; in each case but the last with what the two buffers hold (the
  last two arguments). An exception that is no \<open>Exception\<close> (\<open>SystemExit\<close>,
  \<open>KeyboardInterrupt\<close>) is caught by none of the clauses. The executed code
  reaches objects through \<open>exec_ns\<close> only: it may mutate them in the heap, but the dict
  \<open>session.namespace\<close> itself is not among them, since \<open>exec_ns\<close> is a copy.

  For \<open>repl_run_file\<close> the environment has the file system: \<open>resolve_path\<close> is
  \<open>expanduser\<close> followed by \<open>abspath\<close>, \<open>read_file\<close> tells whether the path is a file and
  what reading it gives (\<open>Unreadable\<close> carries the name and text of the exception). For
  \<open>repl_set_variable\<close> it has \<open>json.loads\<close>, with \<open>None\<close> for a \<open>JSONDecodeError\<close>.
\<close>

datatype outcome =
    Finished exec_namespace string string
  | RaisedTimeoutError string string
  | RaisedSyntaxError string string "int option" string string
  | RaisedNameError string string string
  | RaisedException string string string string string
  | RaisedBaseException string

record world =
  objects :: heap
  ticks :: nat

datatype file_state = NotAFile | Unreadable string string | Contents string

record environment =
  clock :: "nat \<Rightarrow> int"
  builtins_module :: ref
  run :: "string \<Rightarrow> exec_namespace \<Rightarrow> heap \<Rightarrow> outcome \<times> heap"
  resolve_path :: "string \<Rightarrow> string"
  read_file :: "string \<Rightarrow> file_state"
  json_loads :: "string \<Rightarrow> pyval option"

definition now :: "environment \<Rightarrow> world \<Rightarrow> int \<times> world" where
  "now env w = (clock env (ticks w), w\<lparr>ticks := Suc (ticks w)\<rparr>)"

section \<open>executor.py\<close>

text \<open>
  The remediation hints are fixed texts; the hint of a \<open>NameError\<close> interpolates the list of
  available names, which is kept as the list.
\<close>

datatype hint = TimeoutHint | SyntaxHint | NameHint "string list"

record ExecutionResult =
  status :: string
  result :: "ref option"
  stdout :: string
  stderr :: string
  error_type :: "string option"
  error_message :: "string option"
  error_traceback :: "string option"
  error_line :: "int option"
  hint :: "hint option"
  new_vars :: "string list option"
  modified_vars :: "string list option"

definition new_ExecutionResult :: "string \<Rightarrow> ExecutionResult" where
  "new_ExecutionResult st =
     \<lparr>status = st, result = None, stdout = [], stderr = [], error_type = None,
      error_message = None, error_traceback = None, error_line = None, hint = None,
      new_vars = None, modified_vars = None\<rparr>"

subsection \<open>The sandbox\<close>

definition top_level :: "string \<Rightarrow> string" where
  "top_level name = takeWhile (\<lambda>c. c \<noteq> CHR ''.'') name"

fun join :: "string \<Rightarrow> string list \<Rightarrow> string" where
  "join sep [] = []"
| "join sep [x] = x"
| "join sep (x # y # ys) = x @ sep @ join sep (y # ys)"

definition blocked_message :: "string \<Rightarrow> string" where
  "blocked_message name =
     ''Module '' @ [CHR 0x27] @ name @ [CHR 0x27] @ '' is blocked in sandbox mode. ''
     @ ''Blocked modules: '' @ join '', '' (sort SANDBOXED_BLOCKED_MODULES)"

text \<open>
  The closure \<open>_restricted_import\<close>: \<open>real_import\<close> is \<open>builtins.__import__\<close>, \<open>rest\<close> the
  arguments that are passed through; \<open>Inl\<close> is the \<open>ImportError\<close> with its message.
\<close>

definition u_restricted_import :: "(string \<Rightarrow> 'a \<Rightarrow> 'r) \<Rightarrow> string \<Rightarrow> 'a \<Rightarrow> string + 'r" where
  "u_restricted_import real_import name rest =
     (if top_level name \<in> set SANDBOXED_BLOCKED_MODULES
      then Inl (blocked_message name)
      else Inr (real_import name rest))"

text \<open>
  \<open>_make_sandbox_builtins\<close> allocates the dict \<open>safe\<close> and the closure. \<open>vars(builtins)\<close>
  and \<open>builtins.__import__\<close> are read from the module object; where the object is no
  namespace or has no \<open>__import__\<close>, Python raises, and the name of the exception is the
  \<open>Inl\<close> value.
\<close>

definition u_make_sandbox_builtins :: "ref \<Rightarrow> heap \<Rightarrow> string + (ref \<times> heap)" where
  "u_make_sandbox_builtins bm h =
     (case cells h bm of
        PyNamespace d \<Rightarrow>
          (let (safe_ref, h1) = alloc (PyNamespace d) h;
               safe = fold AList.delete SANDBOXED_BLOCKED_BUILTINS d
           in case map_of d ''__import__'' of
                None \<Rightarrow> Inl ''AttributeError''
              | Some real_import \<Rightarrow>
                  (let (f, h2) = alloc (PyRestrictedImport real_import) h1;
                       safe' = AList.update ''__import__'' f safe
                   in Inr (safe_ref, h2\<lparr>cells := (cells h2)(safe_ref := PyNamespace safe')\<rparr>)))
      | _ \<Rightarrow> Inl ''TypeError'')"

subsection \<open>Helpers\<close>

definition u_truncate :: "string \<Rightarrow> int \<Rightarrow> string" where
  "u_truncate text max_bytes =
     (if int (length text) \<le> max_bytes then text
      else py_slice_to max_bytes text
           @ [CHR 0x0A] @ ''... [truncated, '' @ str_int (int (length text)) @ '' total chars]'')"

definition or_empty :: "'a list option \<Rightarrow> 'a list" where
  "or_empty xs = (case xs of None \<Rightarrow> [] | Some ys \<Rightarrow> ys)"

definition or_None :: "'a list \<Rightarrow> 'a list option" where
  "or_None xs = (if xs = [] then None else Some xs)"

definition u_record ::
  "environment \<Rightarrow> Session \<Rightarrow> string \<Rightarrow> string \<Rightarrow> string list option \<Rightarrow> string list option
     \<Rightarrow> string option \<Rightarrow> world \<Rightarrow> Session \<times> world" where
  "u_record env session code st nv mv err w =
     (let preview = escape_newlines (py_slice_to 120 code);
          preview' = (if length code > 120 then preview @ ''...'' else preview);
          (t, w') = now env w
      in (session\<lparr>history := history session @
            [\<lparr>timestamp = t, code_preview = preview', rec_status = st,
              rec_new_vars = or_empty nv, rec_modified_vars = or_empty mv, error = err\<rparr>]\<rparr>,
          w'))"

subsection \<open>Reconciling the namespace\<close>

definition skipped :: "string \<Rightarrow> bool" where
  "skipped key = (startswith_underscore key \<or> key \<in> {''__builtins__'', ''result''})"

text \<open>
  The loop over \<open>exec_ns.items()\<close>: the accumulators are \<open>session.namespace\<close>,
  \<open>new_vars\<close> and \<open>modified_vars\<close>. The loop writes \<open>session.namespace\<close> as it goes and
  stands outside every \<open>try\<close>. At a key that is no \<open>str\<close>, \<open>key.startswith("_")\<close> raises:
  an \<open>int\<close>, a tuple or \<open>None\<close> has no such attribute, and \<open>bytes.startswith\<close> refuses a
  \<open>str\<close> argument. The loop then ends with that exception (the first component) and with
  the namespace as the keys before it left it.
\<close>

fun reconcile ::
  "exec_namespace \<Rightarrow> namespace \<Rightarrow> string list \<Rightarrow> string list
     \<Rightarrow> string option \<times> namespace \<times> string list \<times> string list" where
  "reconcile [] ns nv mv = (None, ns, nv, mv)"
| "reconcile ((StrKey key, v) # items) ns nv mv =
     (if skipped key then reconcile items ns nv mv
      else if map_of ns key = None
        then reconcile items (AList.update key v ns) (nv @ [key]) mv
      else if map_of ns key \<noteq> Some v
        then reconcile items (AList.update key v ns) nv (mv @ [key])
      else reconcile items ns nv mv)"
| "reconcile ((IntKey _, v) # items) ns nv mv = (Some ''AttributeError'', ns, nv, mv)"
| "reconcile ((BytesKey _, v) # items) ns nv mv = (Some ''TypeError'', ns, nv, mv)"
| "reconcile ((OtherKey _, v) # items) ns nv mv = (Some ''AttributeError'', ns, nv, mv)"

subsection \<open>execute_code\<close>

text \<open>
  The result is \<open>Inr\<close> the \<open>ExecutionResult\<close> that is returned, or \<open>Inl\<close> the name of an
  exception that leaves \<open>execute_code\<close>: one that no \<open>except\<close> clause catches, or one raised
  outside the \<open>try\<close>, by \<open>_make_sandbox_builtins\<close> or by the loop that persists the
  namespace. With it come the session and the world as the call leaves them.
\<close>

text \<open>Lines 94 to 102: the dict \<open>exec_ns\<close> that the code runs in.\<close>

definition build_exec_ns ::
  "environment \<Rightarrow> Session \<Rightarrow> Config \<Rightarrow> heap \<Rightarrow> string + (exec_namespace \<times> heap)" where
  "build_exec_ns env session config h =
     (case (if sandbox_enabled config
            then u_make_sandbox_builtins (builtins_module env) h
            else Inr (builtins_module env, h)) of
        Inl exn \<Rightarrow> Inl exn
      | Inr (b, h1) \<Rightarrow>
          Inr (AList.delete (StrKey ''result'')
                 (AList.update (StrKey ''__builtins__'') b
                    (map (\<lambda>(k, v). (StrKey k, v)) (namespace session))), h1))"

definition execute_code ::
  "environment \<Rightarrow> string \<Rightarrow> Session \<Rightarrow> Config \<Rightarrow> world
     \<Rightarrow> (string + ExecutionResult) \<times> Session \<times> world" where
  "execute_code env code session config w =
     (if code = [] \<or> strip code = [] then
        (Inr ((new_ExecutionResult ''error'')
                \<lparr>error_type := Some ''ValueError'', error_message := Some ''No code provided''\<rparr>),
         session, w)
      else
        case build_exec_ns env session config (objects w) of
          Inl exn \<Rightarrow> (Inl exn, session, w)
        | Inr (exec_ns, h1) \<Rightarrow>
           (let (out, h2) = run env code exec_ns h1;
                w2 = w\<lparr>objects := h2\<rparr>
            in case out of
                 RaisedTimeoutError so se \<Rightarrow>
                   (let (s', w3) = u_record env session code ''timeout'' None None None w2
                    in (Inr ((new_ExecutionResult ''timeout'')
                          \<lparr>error_type := Some ''TimeoutError'',
                           error_message := Some (''Execution exceeded ''
                              @ str_int (timeout_seconds config) @ ''s limit''),
                           hint := Some TimeoutHint,
                           stdout := u_truncate so (max_output_bytes config),
                           stderr := u_truncate se (max_output_bytes config)\<rparr>), s', w3))
               | RaisedSyntaxError str_exc msg lineno so se \<Rightarrow>
                   (let (s', w3) = u_record env session code ''error'' None None (Some str_exc) w2
                    in (Inr ((new_ExecutionResult ''error'')
                          \<lparr>error_type := Some ''SyntaxError'', error_message := Some msg,
                           error_line := lineno, hint := Some SyntaxHint\<rparr>), s', w3))
               | RaisedNameError str_exc so se \<Rightarrow>
                   (let (s', w3) = u_record env session code ''error'' None None (Some str_exc) w2;
                        available = map fst (variable_summary (objects w3) s')
                    in (Inr ((new_ExecutionResult ''error'')
                          \<lparr>error_type := Some ''NameError'', error_message := Some str_exc,
                           hint := Some (NameHint available)\<rparr>), s', w3))
               | RaisedException tname str_exc tb so se \<Rightarrow>
                   (let (s', w3) = u_record env session code ''error'' None None (Some str_exc) w2
                    in (Inr ((new_ExecutionResult ''error'')
                          \<lparr>error_type := Some tname, error_message := Some str_exc,
                           error_traceback := Some tb,
                           stdout := u_truncate so (max_output_bytes config),
                           stderr := u_truncate se (max_output_bytes config)\<rparr>), s', w3))
               | RaisedBaseException tname \<Rightarrow> (Inl tname, session, w2)
               | Finished exec_ns' so se \<Rightarrow>
                   (let (raised, ns', nv, mv) = reconcile exec_ns' (namespace session) [] [];
                        session1 = session\<lparr>namespace := ns'\<rparr>
                    in case raised of
                         Some exn \<Rightarrow> (Inl exn, session1, w2)
                       | None \<Rightarrow>
                          (let so' = u_truncate so (max_output_bytes config);
                               se' = u_truncate se (max_output_bytes config);
                               result_val = map_of exec_ns' (StrKey ''result'');
                               (s', w3) = u_record env session1 code ''completed''
                                            (Some nv) (Some mv) None w2
                           in (Inr ((new_ExecutionResult ''completed'')
                                 \<lparr>result := result_val, stdout := so', stderr := se',
                                  new_vars := or_None nv, modified_vars := or_None mv\<rparr>),
                               s', w3)))))"

section \<open>session.py: the session manager\<close>

text \<open>
  The manager is its configuration and the dict \<open>_sessions\<close>. The lock is not modelled:
  operations run one after the other. A session object is the entry of \<open>_sessions\<close> under
  its \<open>session_id\<close>; mutating the object is updating that entry.
\<close>

record SessionManager =
  config :: Config
  sessions :: "(string \<times> Session) list"

text \<open>
  The list comprehension of \<open>_evict_expired\<close> reads the clock once for every session. Where
  \<open>is_expired\<close> raises, the comprehension ends with the exception and nothing is deleted.
\<close>

fun expired_ids ::
  "environment \<Rightarrow> int \<Rightarrow> (string \<times> Session) list \<Rightarrow> world \<Rightarrow> (string + string list) \<times> world" where
  "expired_ids env ttl [] w = (Inr [], w)"
| "expired_ids env ttl ((sid, s) # rest) w =
     (let (t, w1) = now env w
      in case is_expired s ttl t of
           Inl exn \<Rightarrow> (Inl exn, w1)
         | Inr expired \<Rightarrow>
             (case expired_ids env ttl rest w1 of
                (Inl exn, w2) \<Rightarrow> (Inl exn, w2)
              | (Inr ids, w2) \<Rightarrow> (Inr (if expired then sid # ids else ids), w2)))"

definition u_evict_expired ::
  "environment \<Rightarrow> SessionManager \<Rightarrow> world \<Rightarrow> (string + SessionManager) \<times> world" where
  "u_evict_expired env m w =
     (case expired_ids env (session_ttl_minutes (config m)) (sessions m) w of
        (Inl exn, w') \<Rightarrow> (Inl exn, w')
      | (Inr expired, w') \<Rightarrow> (Inr (m\<lparr>sessions := fold AList.delete expired (sessions m)\<rparr>), w'))"

text \<open>
  \<open>min(xs, key=f)\<close> keeps the first element whose key is smallest: a later element replaces
  the best one only when its key is strictly smaller. In \<open>create_session\<close> the elements
  are the ids and the key of an id is the \<open>last_used\<close> of its session, so the model runs
  over the items of the dict.
\<close>

fun py_min_from :: "('a \<Rightarrow> int) \<Rightarrow> 'a \<Rightarrow> 'a list \<Rightarrow> 'a" where
  "py_min_from key best [] = best"
| "py_min_from key best (x # xs) =
     (if key x < key best then py_min_from key x xs else py_min_from key best xs)"

definition py_min :: "('a \<Rightarrow> int) \<Rightarrow> 'a list \<Rightarrow> string + 'a" where
  "py_min key xs = (case xs of [] \<Rightarrow> Inl ''ValueError'' | x # rest \<Rightarrow> Inr (py_min_from key x rest))"

text \<open>\<open>uid\<close> is the value of \<open>uuid.uuid4().hex[:12]\<close>.\<close>

definition create_session ::
  "environment \<Rightarrow> string \<Rightarrow> SessionManager \<Rightarrow> world \<Rightarrow> (string + Session) \<times> SessionManager \<times> world" where
  "create_session env uid m w =
     (case u_evict_expired env m w of
        (Inl exn, w1) \<Rightarrow> (Inl exn, m, w1)
      | (Inr m1, w1) \<Rightarrow>
         (case (if int (length (sessions m1)) \<ge> max_sessions (config m1)
                then (case py_min (\<lambda>(sid, s). last_used s) (sessions m1) of
                        Inl exn \<Rightarrow> Inl exn
                      | Inr (oldest_id, _) \<Rightarrow>
                          Inr (m1\<lparr>sessions := AList.delete oldest_id (sessions m1)\<rparr>))
                else Inr m1) of
            Inl exn \<Rightarrow> (Inl exn, m1, w1)
          | Inr m2 \<Rightarrow>
              (let (t, w2) = now env w1;
                   session = \<lparr>session_id = uid, created_at = t, last_used = t,
                              namespace = [], history = []\<rparr>
               in (Inr session, m2\<lparr>sessions := AList.update uid session (sessions m2)\<rparr>, w2))))"

text \<open>
  \<open>get_session\<close> answers \<open>Inr None\<close> for Python's \<open>None\<close> and \<open>Inl\<close> with the exception that
  \<open>is_expired\<close> raises.
\<close>

definition get_session ::
  "environment \<Rightarrow> string \<Rightarrow> SessionManager \<Rightarrow> world
     \<Rightarrow> (string + Session option) \<times> SessionManager \<times> world" where
  "get_session env sid m w =
     (case map_of (sessions m) sid of
        None \<Rightarrow> (Inr None, m, w)
      | Some session \<Rightarrow>
          (let (t, w1) = now env w
           in case is_expired session (session_ttl_minutes (config m)) t of
                Inl exn \<Rightarrow> (Inl exn, m, w1)
              | Inr True \<Rightarrow> (Inr None, m\<lparr>sessions := AList.delete sid (sessions m)\<rparr>, w1)
              | Inr False \<Rightarrow>
                  (let (t', w2) = now env w1;
                       session' = touch session t'
                   in (Inr (Some session'),
                       m\<lparr>sessions := AList.update sid session' (sessions m)\<rparr>, w2))))"

definition get_or_create ::
  "environment \<Rightarrow> string \<Rightarrow> string option \<Rightarrow> SessionManager \<Rightarrow> world
     \<Rightarrow> (string + Session) \<times> SessionManager \<times> world" where
  "get_or_create env uid sid_opt m w =
     (case sid_opt of
        None \<Rightarrow> create_session env uid m w
      | Some sid \<Rightarrow>
          if sid = [] then create_session env uid m w
          else (case get_session env sid m w of
                  (Inl exn, m1, w1) \<Rightarrow> (Inl exn, m1, w1)
                | (Inr (Some session), m1, w1) \<Rightarrow> (Inr session, m1, w1)
                | (Inr None, m1, w1) \<Rightarrow> create_session env uid m1 w1))"

definition delete_session :: "string \<Rightarrow> SessionManager \<Rightarrow> bool \<times> SessionManager" where
  "delete_session sid m =
     (map_of (sessions m) sid \<noteq> None, m\<lparr>sessions := AList.delete sid (sessions m)\<rparr>)"

record SessionSummary =
  sum_session_id :: string
  sum_created_at :: int
  sum_last_used :: int
  variable_count :: nat
  history_count :: nat

definition list_sessions ::
  "environment \<Rightarrow> SessionManager \<Rightarrow> world
     \<Rightarrow> (string + SessionSummary list) \<times> SessionManager \<times> world" where
  "list_sessions env m w =
     (case u_evict_expired env m w of
        (Inl exn, w1) \<Rightarrow> (Inl exn, m, w1)
      | (Inr m1, w1) \<Rightarrow>
          (Inr (map (\<lambda>(sid, s). \<lparr>sum_session_id = session_id s, sum_created_at = created_at s,
                                sum_last_used = last_used s,
                                variable_count = length (variable_summary (objects w1) s),
                                history_count = length (history s)\<rparr>) (sessions m1)),
           m1, w1))"

definition count :: "SessionManager \<Rightarrow> nat" where
  "count m = length (sessions m)"

section \<open>server.py: the operations on variables and the two run operations\<close>

text \<open>
  The JSON text of a response is kept as a value that has its fields. The previews of
  values in \<open>repl_set_variable\<close> are left out. \<open>sys.argv\<close>, which \<open>repl_run_file\<close> sets and
  restores, is no part of a session and is left out too. An operation answers \<open>Inl\<close> with
  the exception that leaves it.
\<close>

datatype response =
    SessionNotFound string
  | VariableNotFound string "string list"
  | FileNotFound string
  | FileError string string
  | RunResponse ExecutionResult string "string list"
  | RunFileResponse ExecutionResult string "string list" string nat
  | GetOk string string pyval
  | SetOk string string
  | DeleteOk string "string list"
  | ClearOk nat "string list"

definition put_session :: "Session \<Rightarrow> SessionManager \<Rightarrow> SessionManager" where
  "put_session s m = m\<lparr>sessions := AList.update (session_id s) s (sessions m)\<rparr>"

definition run_in_session ::
  "environment \<Rightarrow> string \<Rightarrow> Session \<Rightarrow> SessionManager \<Rightarrow> world
     \<Rightarrow> (string + ExecutionResult \<times> Session) \<times> SessionManager \<times> world" where
  "run_in_session env code session m w =
     (case execute_code env code session (config m) w of
        (Inl exn, s', w') \<Rightarrow> (Inl exn, put_session s' m, w')
      | (Inr res, s', w') \<Rightarrow> (Inr (res, s'), put_session s' m, w'))"

definition repl_run_code ::
  "environment \<Rightarrow> string \<Rightarrow> string \<Rightarrow> string option \<Rightarrow> SessionManager \<Rightarrow> world
     \<Rightarrow> (string + response) \<times> SessionManager \<times> world" where
  "repl_run_code env uid code sid_opt m w =
     (case get_or_create env uid sid_opt m w of
        (Inl exn, m1, w1) \<Rightarrow> (Inl exn, m1, w1)
      | (Inr session, m1, w1) \<Rightarrow>
          (case run_in_session env code session m1 w1 of
             (Inl exn, m2, w2) \<Rightarrow> (Inl exn, m2, w2)
           | (Inr (res, s'), m2, w2) \<Rightarrow>
               (Inr (RunResponse res (session_id s') (map fst (variable_summary (objects w2) s'))),
                m2, w2)))"






section \<open>A small world for examples\<close>

text \<open>
  The examples run in a world with a handful of objects, a clock that starts at ten
  thousand seconds, one file, and an interpreter that knows what Python does with a few
  programs when they run in the example sessions, whose namespaces hold two lists and
  shadow no builtin, under the default time limit of thirty seconds. Of the names of the
  module \<open>builtins\<close> the example heap shows three. For any other text the example
  interpreter gives up with an exception of its own; no example uses it.
\<close>

definition demo_heap :: heap where
  "demo_heap =
     \<lparr>cells = (\<lambda>_. PyNone)
        (0 := PyNamespace [(''print'', 1), (''exec'', 2), (''__import__'', 3)],
         1 := PyOther ''builtin_function_or_method'',
         2 := PyOther ''builtin_function_or_method'',
         3 := PyOther ''builtin_function_or_method'',
         4 := PyList [PyInt 1],
         5 := PyList [PyInt 1]),
      next_ref = 6\<rparr>"

definition quoted :: "string \<Rightarrow> string" where
  "quoted s = [CHR 0x27] @ s @ [CHR 0x27]"

definition demo_run :: "string \<Rightarrow> exec_namespace \<Rightarrow> heap \<Rightarrow> outcome \<times> heap" where
  "demo_run code ns h =
     (if code = ''x = 42'' then
        (let (r, h1) = alloc (PyInt 42) h in (Finished (AList.update (StrKey ''x'') r ns) [] [], h1))
      else if code = ''y = 2'' then
        (let (r, h1) = alloc (PyInt 2) h in (Finished (AList.update (StrKey ''y'') r ns) [] [], h1))
      else if code = ''a.append(2); b = [1]; c = []'' then
        (case map_of ns (StrKey ''a'') of
           None \<Rightarrow> (RaisedNameError (''name '' @ quoted ''a'' @ '' is not defined'') [] [], h)
         | Some ra \<Rightarrow>
             (case cells h ra of
                PyList xs \<Rightarrow>
                  (let h1 = h\<lparr>cells := (cells h)(ra := PyList (xs @ [PyInt 2]))\<rparr>;
                       (rb, h2) = alloc (PyList [PyInt 1]) h1;
                       (rc, h3) = alloc (PyList []) h2
                   in (Finished (AList.update (StrKey ''c'') rc (AList.update (StrKey ''b'') rb ns))
                         [] [], h3))
              | v \<Rightarrow>
                  (RaisedException ''AttributeError''
                     (quoted (type_name v) @ '' object has no attribute '' @ quoted ''append'')
                     ''Traceback (most recent call last): ...'' [] [], h)))
      else if code = ''_tmp = 1; result = 7; y = 3'' then
        (let (r1, h1) = alloc (PyInt 1) h;
             (r2, h2) = alloc (PyInt 7) h1;
             (r3, h3) = alloc (PyInt 3) h2
         in (Finished (AList.update (StrKey ''y'') r3 (AList.update (StrKey ''result'') r2
                         (AList.update (StrKey ''_tmp'') r1 ns)))
               [] [], h3))
      else if code = ''x = 1; globals()[5] = 2; y = 3'' then
        (let (r1, h1) = alloc (PyInt 1) h;
             (r2, h2) = alloc (PyInt 2) h1;
             (r3, h3) = alloc (PyInt 3) h2
         in (Finished (AList.update (StrKey ''y'') r3 (AList.update (IntKey 5) r2
                         (AList.update (StrKey ''x'') r1 ns)))
               [] [], h3))
      else if code = ''z = 1; print(z); import time; time.sleep(99)'' then
        (RaisedTimeoutError [CHR ''1'', CHR 0x0A] [], h)
      else if code = ''print(1); print(missing)'' then
        (RaisedNameError (''name '' @ quoted ''missing'' @ '' is not defined'') [CHR ''1'', CHR 0x0A] [], h)
      else if code = ''print(1); 1 / 0'' then
        (RaisedException ''ZeroDivisionError'' ''division by zero''
           ''Traceback (most recent call last): ...'' [CHR ''1'', CHR 0x0A] [], h)
      else if code = ''raise SystemExit'' then
        (RaisedBaseException ''SystemExit'', h)
      else if code = ''def f('' then
        (RaisedSyntaxError (quoted ''('' @ '' was never closed (<string>, line 1)'')
           (quoted ''('' @ '' was never closed'') (Some 1) [] [], h)
      else (RaisedException ''NotImplementedError'' ''not an example program''
              ''Traceback (most recent call last): ...'' [] [], h))"

definition demo_env :: environment where
  "demo_env =
     \<lparr>clock = (\<lambda>t. 10000000000 + int t), builtins_module = 0, run = demo_run,
      resolve_path = (\<lambda>p. p),
      read_file = (\<lambda>p. if p = ''/srv/job.py'' then Contents ''x = 42'' else NotAFile),
      json_loads = (\<lambda>s. if s = ''5'' then Some (PyInt 5) else None)\<rparr>"

definition demo_config :: Config where
  "demo_config = default_Config ''/srv''"

definition demo_world :: world where
  "demo_world = \<lparr>objects = demo_heap, ticks = 0\<rparr>"

definition demo_session :: Session where
  "demo_session =
     \<lparr>session_id = ''aaaaaaaaaaaa'', created_at = 9000000000, last_used = 9000000000,
      namespace = [(''a'', 4), (''b'', 5)], history = []\<rparr>"

definition stale_session :: "string \<Rightarrow> Session" where
  "stale_session sid =
     \<lparr>session_id = sid, created_at = 0, last_used = 0, namespace = [], history = []\<rparr>"

definition live_session :: "string \<Rightarrow> int \<Rightarrow> int \<Rightarrow> Session" where
  "live_session sid c u =
     \<lparr>session_id = sid, created_at = c, last_used = u, namespace = [], history = []\<rparr>"




definition mixed_manager :: SessionManager where
  "mixed_manager =
     \<lparr>config = demo_config,
      sessions = [(''aaaaaaaaaaaa'', stale_session ''aaaaaaaaaaaa''),
                  (''bbbbbbbbbbbb'', live_session ''bbbbbbbbbbbb'' 9100000000 9200000000)]\<rparr>"

text \<open>The store of \<open>mixed_manager\<close> under a TTL of a thousand million days.\<close>

definition far_ttl_manager :: SessionManager where
  "far_ttl_manager = mixed_manager\<lparr>config := demo_config\<lparr>session_ttl_minutes := 1440000000000\<rparr>\<rparr>"

text \<open>Every session of the store is filed under its own identifier.\<close>

definition filed_by_id :: "SessionManager \<Rightarrow> bool" where
  "filed_by_id m = (\<forall>(k, s)\<in>set (sessions m). session_id s = k)"


text \<open>The configured TTL is one that \<open>timedelta(minutes=\<dots>)\<close> can represent.\<close>

definition ttl_in_range :: "Config \<Rightarrow> bool" where
  "ttl_in_range cfg =
     (- 1439999998560 \<le> session_ttl_minutes cfg \<and> session_ttl_minutes cfg \<le> 1439999999999)"




text \<open>
  A clock that never goes back, and a store whose sessions stand in the order of their
  creation timestamps, none of them later than the current reading of the clock.
\<close>

definition mono_clock :: "environment \<Rightarrow> bool" where
  "mono_clock env = (\<forall>t. clock env t \<le> clock env (Suc t))"

definition creation_ordered :: "environment \<Rightarrow> SessionManager \<Rightarrow> world \<Rightarrow> bool" where
  "creation_ordered env m w =
     (sorted (map (created_at \<circ> snd) (sessions m))
      \<and> (\<forall>(sid, s)\<in>set (sessions m). created_at s \<le> clock env (ticks w)))"

section \<open>Properties of the executor\<close>

lemma u_record_namespace: "namespace (fst (u_record env s code st nv mv err w)) = namespace s"
  by (simp add: u_record_def now_def Let_def)

lemma u_record_history:
  "\<exists>r. history (fst (u_record env s code st nv mv err w)) = history s @ [r] \<and> rec_status r = st
       \<and> rec_new_vars r = or_empty nv \<and> rec_modified_vars r = or_empty mv \<and> error r = err"
  by (simp add: u_record_def now_def Let_def)

lemma u_record_ids:
  "session_id (fst (u_record env s code st nv mv err w)) = session_id s"
  "created_at (fst (u_record env s code st nv mv err w)) = created_at s"
  "last_used (fst (u_record env s code st nv mv err w)) = last_used s"
  by (simp_all add: u_record_def now_def Let_def)

lemma u_record_world:
  "objects (snd (u_record env s code st nv mv err w)) = objects w"
  "ticks (snd (u_record env s code st nv mv err w)) = Suc (ticks w)"
  by (simp_all add: u_record_def now_def Let_def)

lemma execute_code_no_code:
  "code = [] \<or> strip code = [] \<Longrightarrow>
   execute_code env code s cfg w =
     (Inr ((new_ExecutionResult ''error'')
        \<lparr>error_type := Some ''ValueError'', error_message := Some ''No code provided''\<rparr>), s, w)"
  by (simp add: execute_code_def)


lemma execute_code_Finished:
  "\<not> (code = [] \<or> strip code = []) \<Longrightarrow> build_exec_ns env s cfg (objects w) = Inr (exec_ns, h1) \<Longrightarrow>
   run env code exec_ns h1 = (Finished ns' so se, h2) \<Longrightarrow>
   reconcile ns' (namespace s) [] [] = (None, ns2, nv, mv) \<Longrightarrow>
   execute_code env code s cfg w =
     (Inr ((new_ExecutionResult ''completed'')
            \<lparr>result := map_of ns' (StrKey ''result''),
             stdout := u_truncate so (max_output_bytes cfg),
             stderr := u_truncate se (max_output_bytes cfg),
             new_vars := or_None nv, modified_vars := or_None mv\<rparr>),
      u_record env (s\<lparr>namespace := ns2\<rparr>) code ''completed'' (Some nv) (Some mv) None (w\<lparr>objects := h2\<rparr>))"
  by (simp add: execute_code_def Let_def split: prod.splits)





lemma execute_code_BaseException:
  "\<not> (code = [] \<or> strip code = []) \<Longrightarrow> build_exec_ns env s cfg (objects w) = Inr (exec_ns, h1) \<Longrightarrow>
   run env code exec_ns h1 = (RaisedBaseException tname, h2) \<Longrightarrow>
   execute_code env code s cfg w = (Inl tname, s, w\<lparr>objects := h2\<rparr>)"
  by (simp add: execute_code_def Let_def split: prod.splits)



lemma execute_code_Finished_raises:
  "\<not> (code = [] \<or> strip code = []) \<Longrightarrow> build_exec_ns env s cfg (objects w) = Inr (exec_ns, h1) \<Longrightarrow>
   run env code exec_ns h1 = (Finished ns' so se, h2) \<Longrightarrow>
   reconcile ns' (namespace s) [] [] = (Some exn, ns2, nv, mv) \<Longrightarrow>
   execute_code env code s cfg w = (Inl exn, s\<lparr>namespace := ns2\<rparr>, w\<lparr>objects := h2\<rparr>)"
  by (simp add: execute_code_def Let_def split: prod.splits)

subsection \<open>The reconciliation loop\<close>








lemma reconcile_complete_str_keys:
  "reconcile xs ns nv mv = (None, ns2, nv2, mv2) \<Longrightarrow> \<forall>key\<in>fst ` set xs. \<exists>k. key = StrKey k"
proof (induction xs ns nv mv rule: reconcile.induct)
  case (1 ns nv mv)
  then show ?case by simp
next
  case (2 key v items ns nv mv)
  then show ?case by (auto split: if_splits)
qed simp_all

subsection \<open>The example world\<close>

lemma of_char_digit_char: "d < 10 \<Longrightarrow> of_char (digit_char d) = 48 + d"
  by (simp add: digit_char_def)

lemma str_nat_decimal:
  "foldl (\<lambda>a c. 10 * a + (of_char c - 48)) 0 (str_nat n) = n"
proof (induction n rule: str_nat.induct)
  case (1 n)
  show ?case
  proof (cases "n < 10")
    case True
    then show ?thesis by (subst str_nat.simps) (simp add: of_char_digit_char)
  next
    case False
    with 1 show ?thesis
      by (subst str_nat.simps) (simp add: of_char_digit_char)
  qed
qed

lemma demo_build:
  "build_exec_ns demo_env demo_session demo_config (objects demo_world)
     = Inr ([(StrKey ''a'', 4), (StrKey ''b'', 5), (StrKey ''__builtins__'', 0)], demo_heap)"
  by (simp add: build_exec_ns_def demo_env_def demo_session_def demo_config_def default_Config_def
      demo_world_def)

lemma strip_nonempty: "s \<noteq> [] \<Longrightarrow> \<not> py_isspace (hd s) \<Longrightarrow> strip s \<noteq> []"
  by (cases s) (auto simp: strip_def)
















subsection \<open>What every call of execute_code does\<close>

lemma strip_empty_iff: "strip s = [] \<longleftrightarrow> (\<forall>c\<in>set s. py_isspace c)"
proof
  assume "strip s = []"
  then have all: "\<forall>c\<in>set (dropWhile py_isspace s). py_isspace c"
    by (simp add: strip_def dropWhile_eq_Nil_conv)
  have "dropWhile py_isspace s = []"
  proof (rule ccontr)
    assume ne: "dropWhile py_isspace s \<noteq> []"
    then have "\<not> py_isspace (hd (dropWhile py_isspace s))" by (rule hd_dropWhile)
    moreover from ne have "hd (dropWhile py_isspace s) \<in> set (dropWhile py_isspace s)" by simp
    ultimately show False using all by blast
  qed
  then show "\<forall>c\<in>set s. py_isspace c" by (simp add: dropWhile_eq_Nil_conv)
next
  assume "\<forall>c\<in>set s. py_isspace c"
  then show "strip s = []" by (auto simp: strip_def dest: set_dropWhileD)
qed

lemma or_empty_or_None: "or_empty (or_None xs) = xs"
  by (simp add: or_empty_def or_None_def)

lemma execute_code_status:
  "execute_code env code s cfg w = (Inr res, s', w') \<Longrightarrow>
   status res \<in> {''completed'', ''error'', ''timeout''}"
  by (auto simp: execute_code_def Let_def new_ExecutionResult_def
      split: if_splits sum.splits prod.splits outcome.splits option.splits)

lemma execute_code_history:
  "\<not> (code = [] \<or> strip code = []) \<Longrightarrow> execute_code env code s cfg w = (Inr res, s', w') \<Longrightarrow>
   \<exists>r. history s' = history s @ [r] \<and> rec_status r = status res"
  by (auto simp: execute_code_def Let_def new_ExecutionResult_def u_record_def now_def
      split: if_splits sum.splits prod.splits outcome.splits option.splits)

lemma execute_code_raises_history:
  "execute_code env code s cfg w = (Inl exn, s', w') \<Longrightarrow> history s' = history s"
  by (auto simp: execute_code_def Let_def
      split: if_splits sum.splits prod.splits outcome.splits option.splits)

lemma execute_code_not_completed:
  "execute_code env code s cfg w = (Inr res, s', w') \<Longrightarrow> status res \<noteq> ''completed'' \<Longrightarrow>
   namespace s' = namespace s"
  by (auto simp: execute_code_def Let_def new_ExecutionResult_def u_record_def now_def
      split: if_splits sum.splits prod.splits outcome.splits option.splits)

lemma execute_code_completed_inv:
  "execute_code env code s cfg w = (Inr res, s', w') \<Longrightarrow> status res = ''completed'' \<Longrightarrow>
   \<exists>exec_ns h1 ns' so se h2.
      \<not> (code = [] \<or> strip code = [])
      \<and> build_exec_ns env s cfg (objects w) = Inr (exec_ns, h1)
      \<and> run env code exec_ns h1 = (Finished ns' so se, h2)"
  by (auto simp: execute_code_def Let_def new_ExecutionResult_def u_record_def now_def
      split: if_splits sum.splits prod.splits outcome.splits option.splits)


subsection \<open>Truncation of captured output\<close>




subsection \<open>History records and failed executions\<close>

lemma demo_code_keys_nonempty:
  "\<not> (''x = 1; globals()[5] = 2; y = 3'' = [] \<or> strip ''x = 1; globals()[5] = 2; y = 3'' = [])"
  by (simp add: strip_nonempty py_isspace_def)

lemma demo_run_keys:
  "run demo_env ''x = 1; globals()[5] = 2; y = 3''
     [(StrKey ''a'', 4), (StrKey ''b'', 5), (StrKey ''__builtins__'', 0)] demo_heap
    = (Finished [(StrKey ''a'', 4), (StrKey ''b'', 5), (StrKey ''__builtins__'', 0),
                 (StrKey ''x'', 6), (IntKey 5, 7), (StrKey ''y'', 8)] [] [],
       snd (alloc (PyInt 3) (snd (alloc (PyInt 2) (snd (alloc (PyInt 1) demo_heap))))))"
  by (simp add: demo_env_def demo_run_def alloc_def demo_heap_def Let_def)

lemma demo_reconcile_keys:
  "reconcile [(StrKey ''a'', 4), (StrKey ''b'', 5), (StrKey ''__builtins__'', 0),
              (StrKey ''x'', 6), (IntKey 5, 7), (StrKey ''y'', 8)]
     (namespace demo_session) [] []
     = (Some ''AttributeError'', [(''a'', 4), (''b'', 5), (''x'', 6)], [''x''], [])"
  by (simp add: demo_session_def skipped_def)

lemma demo_execute_keys:
  "execute_code demo_env ''x = 1; globals()[5] = 2; y = 3'' demo_session demo_config demo_world =
     (Inl ''AttributeError'', demo_session\<lparr>namespace := [(''a'', 4), (''b'', 5), (''x'', 6)]\<rparr>,
      demo_world\<lparr>objects := snd (alloc (PyInt 3) (snd (alloc (PyInt 2) (snd (alloc (PyInt 1) demo_heap)))))\<rparr>)"
  by (rule execute_code_Finished_raises[OF demo_code_keys_nonempty demo_build demo_run_keys
        demo_reconcile_keys])

lemma demo_code_exit_nonempty:
  "\<not> (''raise SystemExit'' = [] \<or> strip ''raise SystemExit'' = [])"
  by (simp add: strip_nonempty py_isspace_def)

lemma demo_run_exit:
  "run demo_env ''raise SystemExit''
     [(StrKey ''a'', 4), (StrKey ''b'', 5), (StrKey ''__builtins__'', 0)] demo_heap
     = (RaisedBaseException ''SystemExit'', demo_heap)"
  by (simp add: demo_env_def demo_run_def)

lemma demo_execute_exit:
  "execute_code demo_env ''raise SystemExit'' demo_session demo_config demo_world =
     (Inl ''SystemExit'', demo_session, demo_world\<lparr>objects := demo_heap\<rparr>)"
  by (rule execute_code_BaseException[OF demo_code_exit_nonempty demo_build demo_run_exit])

text \<open>
  What holds of the history: code that is empty or consists of whitespace only is answered
  at once with the \<open>ValueError\<close> result, the session, and with it the history, and the world
  returned as they were, whatever the interpreter of the environment is; and a call with
  any other code that returns a result leaves the history one record longer, the record
  having the status of the result.
\<close>

lemma returned_result_appends_one_record:
  "((\<forall>c\<in>set code. py_isspace c) \<longrightarrow>
      execute_code env code s cfg w =
        (Inr ((new_ExecutionResult ''error'')
           \<lparr>error_type := Some ''ValueError'', error_message := Some ''No code provided''\<rparr>), s, w))
   \<and> (\<not> (\<forall>c\<in>set code. py_isspace c) \<and> execute_code env code s cfg w = (Inr res, s', w') \<longrightarrow>
        status res \<in> {''completed'', ''error'', ''timeout''}
        \<and> (\<exists>r. history s' = history s @ [r] \<and> rec_status r = status res))"
proof (intro conjI impI)
  assume "\<forall>c\<in>set code. py_isspace c"
  then have "code = [] \<or> strip code = []" by (simp add: strip_empty_iff)
  then show "execute_code env code s cfg w =
        (Inr ((new_ExecutionResult ''error'')
           \<lparr>error_type := Some ''ValueError'', error_message := Some ''No code provided''\<rparr>), s, w)"
    by (rule execute_code_no_code)
next
  assume a: "\<not> (\<forall>c\<in>set code. py_isspace c) \<and> execute_code env code s cfg w = (Inr res, s', w')"
  then have ne: "\<not> (code = [] \<or> strip code = [])" by (auto simp: strip_empty_iff)
  from a have e: "execute_code env code s cfg w = (Inr res, s', w')" by simp
  show "status res \<in> {''completed'', ''error'', ''timeout''}"
    by (rule execute_code_status[OF e])
  show "\<exists>r. history s' = history s @ [r] \<and> rec_status r = status res"
    by (rule execute_code_history[OF ne e])
qed

text \<open>
  Claim C5, at two inputs where the code departs from it. Neither text is empty or
  whitespace. \<open>raise SystemExit\<close> raises an exception that is no \<open>Exception\<close>: no \<open>except\<close>
  clause catches it, it leaves \<open>execute_code\<close>, and the history stays empty. The second
  program stores under the key \<open>5\<close>; the run finishes, the loop that persists the namespace
  raises \<open>AttributeError\<close> at that key, before \<open>_record\<close> is reached, and the history stays
  empty as well.
\<close>

theorem submission_without_history_record:
  "\<not> list_all py_isspace ''raise SystemExit''
   \<and> fst (execute_code demo_env ''raise SystemExit'' demo_session demo_config demo_world)
        = Inl ''SystemExit''
   \<and> history (fst (snd (execute_code demo_env ''raise SystemExit'' demo_session demo_config
        demo_world))) = []
   \<and> \<not> list_all py_isspace ''x = 1; globals()[5] = 2; y = 3''
   \<and> fst (execute_code demo_env ''x = 1; globals()[5] = 2; y = 3'' demo_session demo_config demo_world)
        = Inl ''AttributeError''
   \<and> history (fst (snd (execute_code demo_env ''x = 1; globals()[5] = 2; y = 3'' demo_session
        demo_config demo_world))) = []"
proof -
  have a: "\<not> list_all py_isspace ''raise SystemExit''" by (simp add: py_isspace_def)
  have b: "\<not> list_all py_isspace ''x = 1; globals()[5] = 2; y = 3''" by (simp add: py_isspace_def)
  have c: "fst (execute_code demo_env ''raise SystemExit'' demo_session demo_config demo_world)
        = Inl ''SystemExit''" by (simp add: demo_execute_exit)
  have d: "history (fst (snd (execute_code demo_env ''raise SystemExit'' demo_session demo_config
        demo_world))) = []"
    unfolding demo_execute_exit by (simp add: demo_session_def)
  have e: "fst (execute_code demo_env ''x = 1; globals()[5] = 2; y = 3'' demo_session demo_config demo_world)
        = Inl ''AttributeError''" by (simp add: demo_execute_keys)
  have f: "history (fst (snd (execute_code demo_env ''x = 1; globals()[5] = 2; y = 3'' demo_session
        demo_config demo_world))) = []"
    unfolding demo_execute_keys by (simp add: demo_session_def)
  show ?thesis
    by (intro conjI) (rule a c d b e f)+
qed

text \<open>
  What holds of the namespace after a call that does not complete: where the call returns
  a result of another status, or ends with an exception that no \<open>except\<close> clause catches or
  that \<open>_make_sandbox_builtins\<close> raises, the list of bindings of the session is the one it
  had before the call.
\<close>

lemma caught_failure_keeps_namespace:
  "execute_code env code s cfg w = (Inr res, s', w') \<Longrightarrow> status res \<noteq> ''completed'' \<Longrightarrow>
   namespace s' = namespace s"
  by (rule execute_code_not_completed)

lemma uncaught_exception_keeps_namespace:
  "\<not> (code = [] \<or> strip code = []) \<Longrightarrow> build_exec_ns env s cfg (objects w) = Inr (exec_ns, h1) \<Longrightarrow>
   run env code exec_ns h1 = (RaisedBaseException tname, h2) \<Longrightarrow>
   fst (snd (execute_code env code s cfg w)) = s"
  by (simp add: execute_code_BaseException)

text \<open>
  Claim C3, at an input where the code departs from it. The program binds \<open>x\<close>, stores under
  the key \<open>5\<close> and binds \<open>y\<close>. The run finishes; the loop that persists the namespace has
  written \<open>x\<close> into the session when \<open>key.startswith\<close> raises \<open>AttributeError\<close> at the key
  \<open>5\<close>. The exception leaves \<open>execute_code\<close>, so the call does not complete, and the session
  is left with \<open>x\<close> and without \<open>y\<close>.
\<close>

theorem partial_reconciliation_when_loop_raises:
  "namespace demo_session = [(''a'', 4), (''b'', 5)]
   \<and> fst (execute_code demo_env ''x = 1; globals()[5] = 2; y = 3'' demo_session demo_config demo_world)
        = Inl ''AttributeError''
   \<and> namespace (fst (snd (execute_code demo_env ''x = 1; globals()[5] = 2; y = 3'' demo_session
        demo_config demo_world))) = [(''a'', 4), (''b'', 5), (''x'', 6)]"
proof -
  have a: "namespace demo_session = [(''a'', 4), (''b'', 5)]" by (simp add: demo_session_def)
  have b: "fst (execute_code demo_env ''x = 1; globals()[5] = 2; y = 3'' demo_session demo_config demo_world)
        = Inl ''AttributeError''" by (simp add: demo_execute_keys)
  have c: "namespace (fst (snd (execute_code demo_env ''x = 1; globals()[5] = 2; y = 3'' demo_session
        demo_config demo_world))) = [(''a'', 4), (''b'', 5), (''x'', 6)]"
    by (simp add: demo_execute_keys)
  show ?thesis
    by (intro conjI) (rule a b c)+
qed

subsection \<open>Classification of bindings\<close>

lemma execute_code_completed:
  assumes ne: "\<not> (code = [] \<or> strip code = [])"
    and b: "build_exec_ns env s cfg (objects w) = Inr (exec_ns, h1)"
    and r: "run env code exec_ns h1 = (Finished ns' so se, h2)"
    and e: "execute_code env code s cfg w = (Inr res, s', w')"
  shows "reconcile ns' (namespace s) [] [] =
           (None, namespace s', or_empty (new_vars res), or_empty (modified_vars res))"
proof -
  obtain raised ns2 nv mv where rc: "reconcile ns' (namespace s) [] [] = (raised, ns2, nv, mv)"
    by (metis prod_cases4)
  have none: "raised = None"
  proof (cases raised)
    case None
    then show ?thesis .
  next
    case (Some exn)
    with execute_code_Finished_raises[OF ne b r] rc e show ?thesis by simp
  qed
  from execute_code_Finished[OF ne b r] rc none e
  have res: "res = (new_ExecutionResult ''completed'')
            \<lparr>result := map_of ns' (StrKey ''result''),
             stdout := u_truncate so (max_output_bytes cfg),
             stderr := u_truncate se (max_output_bytes cfg),
             new_vars := or_None nv, modified_vars := or_None mv\<rparr>"
    and sw: "(s', w') = u_record env (s\<lparr>namespace := ns2\<rparr>) code ''completed'' (Some nv) (Some mv) None (w\<lparr>objects := h2\<rparr>)"
    by simp_all
  from sw have s': "s' = fst (u_record env (s\<lparr>namespace := ns2\<rparr>) code ''completed'' (Some nv) (Some mv) None (w\<lparr>objects := h2\<rparr>))"
    by (metis fst_conv)
  from s' have "namespace s' = ns2" by (simp add: u_record_namespace)
  moreover from res have "or_empty (new_vars res) = nv" "or_empty (modified_vars res) = mv"
    by (simp_all add: or_empty_or_None)
  ultimately show ?thesis using rc none by simp
qed

text \<open>After a run that completes, every key of the final \<open>exec_ns\<close> is a string.\<close>

lemma completed_run_str_keys:
  assumes "\<not> (code = [] \<or> strip code = [])"
    and "build_exec_ns env s cfg (objects w) = Inr (exec_ns, h1)"
    and "run env code exec_ns h1 = (Finished ns' so se, h2)"
    and "execute_code env code s cfg w = (Inr res, s', w')"
  shows "\<forall>key\<in>fst ` set ns'. \<exists>k. key = StrKey k"
  by (rule reconcile_complete_str_keys[OF execute_code_completed[OF assms]])







subsection \<open>The sandbox and the length of the history\<close>

lemma restricted_import_blocks:
  "top_level name \<in> set SANDBOXED_BLOCKED_MODULES \<Longrightarrow>
   u_restricted_import real_import name rest = Inl (blocked_message name)"
  by (simp add: u_restricted_import_def)

lemma restricted_import_passes:
  "top_level name \<notin> set SANDBOXED_BLOCKED_MODULES \<Longrightarrow>
   u_restricted_import real_import name rest = Inr (real_import name rest)"
  by (simp add: u_restricted_import_def)

lemma top_level_no_dot: "CHR ''.'' \<notin> set (top_level name)"
  by (auto simp: top_level_def dest: set_takeWhileD)

lemma join_mentions: "m \<in> set xs \<Longrightarrow> \<exists>p q. join sep xs = p @ m @ q"
proof (induction sep xs rule: join.induct)
  case (1 sep)
  then show ?case by simp
next
  case (2 sep x)
  then have "join sep [x] = [] @ m @ []" by simp
  then show ?case by blast
next
  case (3 sep x y ys)
  show ?case
  proof (cases "m = x")
    case True
    then have "join sep (x # y # ys) = [] @ m @ (sep @ join sep (y # ys))" by simp
    then show ?thesis by blast
  next
    case False
    with 3 obtain p q where "join sep (y # ys) = p @ m @ q" by auto
    then have "join sep (x # y # ys) = (x @ sep @ p) @ m @ q" by simp
    then show ?thesis by blast
  qed
qed

lemma blocked_message_names_module:
  "\<exists>q. blocked_message name = ''Module '' @ [CHR 0x27] @ name @ [CHR 0x27] @ q"
  by (simp add: blocked_message_def)

lemma blocked_message_enumerates:
  assumes "m \<in> set SANDBOXED_BLOCKED_MODULES"
  shows "\<exists>p q. blocked_message name = p @ m @ q"
proof -
  from assms have "m \<in> set (sort SANDBOXED_BLOCKED_MODULES)" by simp
  from join_mentions[OF this] obtain p q where "join '', '' (sort SANDBOXED_BLOCKED_MODULES) = p @ m @ q"
    by blast
  then have "blocked_message name =
      (''Module '' @ [CHR 0x27] @ name @ [CHR 0x27] @ '' is blocked in sandbox mode. ''
       @ ''Blocked modules: '' @ p) @ m @ q"
    by (simp add: blocked_message_def)
  then show ?thesis by blast
qed

lemma build_exec_ns_no_sandbox:
  "\<not> sandbox_enabled cfg \<Longrightarrow>
   build_exec_ns env s cfg h =
     Inr (AList.delete (StrKey ''result'')
            (AList.update (StrKey ''__builtins__'') (builtins_module env)
               (map (\<lambda>(k, v). (StrKey k, v)) (namespace s))), h)"
  by (simp add: build_exec_ns_def)

lemma demo_sandbox_builtins:
  "u_make_sandbox_builtins 0 demo_heap =
     Inr (6, \<lparr>cells = (cells demo_heap)
                (6 := PyNamespace [(''print'', 1), (''__import__'', 7)], 7 := PyRestrictedImport 3),
              next_ref = 8\<rparr>)"
  by (simp add: u_make_sandbox_builtins_def demo_heap_def alloc_def Let_def
      SANDBOXED_BLOCKED_BUILTINS_def fun_upd_twist)

text \<open>
  Claim C4, at the input where the code departs from it. \<open>http.server\<close> is an entry of the
  denylist, yet \<open>_restricted_import\<close> compares only the part of the name before the first
  dot, \<open>http\<close>, which is no entry: the import is handed to the real import.
\<close>

theorem dotted_denylist_entry_is_imported:
  "''http.server'' \<in> set SANDBOXED_BLOCKED_MODULES
   \<and> top_level ''http.server'' = ''http''
   \<and> u_restricted_import real_import ''http.server'' rest = Inr (real_import ''http.server'' rest)"
  by (simp add: SANDBOXED_BLOCKED_MODULES_def top_level_def u_restricted_import_def)

text \<open>
  Claim C6, at an input where the code departs from it. With \<open>max_log_entries = 1\<close>, two
  runs in one session leave a history of two records: \<open>u_record\<close> appends and nothing
  reads the setting.
\<close>

theorem history_exceeds_max_log_entries:
  "(let cfg = demo_config\<lparr>max_log_entries := 1\<rparr>;
        (r1, s1, w1) = execute_code demo_env ''x = 42'' demo_session cfg demo_world;
        (r2, s2, w2) = execute_code demo_env ''y = 2'' s1 cfg w1
    in map rec_status (history s2) = [''completed'', ''completed'']
       \<and> int (length (history s2)) > max_log_entries cfg)"
  by (simp add: execute_code_def build_exec_ns_def demo_env_def demo_run_def demo_session_def
      demo_config_def default_Config_def demo_world_def demo_heap_def alloc_def Let_def
      u_record_def now_def reconcile.simps skipped_def strip_def py_isspace_def
      new_ExecutionResult_def)

section \<open>Properties of the session manager\<close>

lemma is_expired_in_range:
  "- 1439999998560 \<le> ttl \<Longrightarrow> ttl \<le> 1439999999999 \<Longrightarrow>
   is_expired s ttl t = Inr (t - last_used s > ttl * 60000000)"
  by (simp add: is_expired_def timedelta_minutes_def)

lemma is_expired_out_of_range:
  "\<not> (- 1439999998560 \<le> ttl \<and> ttl \<le> 1439999999999) \<Longrightarrow>
   is_expired s ttl t = Inl ''OverflowError''"
  by (auto simp: is_expired_def timedelta_minutes_def)

lemma is_expired_config:
  "ttl_in_range cfg \<Longrightarrow>
   is_expired s (session_ttl_minutes cfg) t = Inr (t - last_used s > session_ttl_minutes cfg * 60000000)"
  by (simp add: ttl_in_range_def is_expired_in_range)

lemma fold_delete_subset: "set (fold AList.delete ids xs) \<subseteq> set xs"
proof (induction ids arbitrary: xs)
  case Nil
  then show ?case by simp
next
  case (Cons a ids)
  have "set (fold AList.delete ids (AList.delete a xs)) \<subseteq> set (AList.delete a xs)"
    by (rule Cons.IH)
  also have "\<dots> \<subseteq> set xs" by (auto simp: AList.delete_eq)
  finally show ?case by simp
qed

lemma map_of_fold_delete:
  "map_of (fold AList.delete ids xs) k = (if k \<in> set ids then None else map_of xs k)"
proof (induction ids arbitrary: xs)
  case Nil
  then show ?case by simp
next
  case (Cons a ids)
  then show ?case by (simp add: AList.delete_conv')
qed

lemma distinct_fold_delete:
  "distinct (map fst xs) \<Longrightarrow> distinct (map fst (fold AList.delete ids xs))"
  by (induction ids arbitrary: xs) (simp_all add: AList.distinct_delete)

lemma expired_ids_world:
  "expired_ids env ttl xs w = (r, w') \<Longrightarrow> objects w' = objects w \<and> ticks w \<le> ticks w'"
proof (induction xs arbitrary: w r w')
  case Nil
  then show ?case by simp
next
  case (Cons x xs)
  obtain sid s where x: "x = (sid, s)" by (cases x)
  let ?w1 = "w\<lparr>ticks := Suc (ticks w)\<rparr>"
  show ?case
  proof (cases "is_expired s ttl (clock env (ticks w))")
    case (Inl exn)
    with Cons.prems x have "w' = ?w1" by (simp add: now_def)
    then show ?thesis by simp
  next
    case (Inr b)
    obtain r1 w2 where r: "expired_ids env ttl xs ?w1 = (r1, w2)" by (metis surj_pair)
    from Cons.IH[OF r] have "objects w2 = objects w \<and> Suc (ticks w) \<le> ticks w2" by simp
    moreover from Cons.prems x Inr r have "w' = w2"
      by (cases r1) (simp_all add: now_def)
    ultimately show ?thesis by simp
  qed
qed

lemma expired_ids_in_range:
  assumes "- 1439999998560 \<le> ttl" and "ttl \<le> 1439999999999"
  shows "\<exists>ids. expired_ids env ttl xs w = (Inr ids, w\<lparr>ticks := ticks w + length xs\<rparr>)"
proof (induction xs arbitrary: w)
  case Nil
  then show ?case by simp
next
  case (Cons x xs)
  obtain sid s where x: "x = (sid, s)" by (cases x)
  from Cons.IH[of "w\<lparr>ticks := Suc (ticks w)\<rparr>"] obtain ids
    where "expired_ids env ttl xs (w\<lparr>ticks := Suc (ticks w)\<rparr>)
             = (Inr ids, w\<lparr>ticks := Suc (ticks w) + length xs\<rparr>)" by auto
  with x is_expired_in_range[OF assms] show ?case
    by (simp add: now_def)
qed

lemma u_evict_expired_sessions:
  assumes "u_evict_expired env m w = (Inr m1, w1)"
  shows "config m1 = config m" and "objects w1 = objects w" and "ticks w \<le> ticks w1"
    and "\<exists>ids. expired_ids env (session_ttl_minutes (config m)) (sessions m) w = (Inr ids, w1)
           \<and> sessions m1 = fold AList.delete ids (sessions m)"
proof -
  obtain r w' where e: "expired_ids env (session_ttl_minutes (config m)) (sessions m) w = (r, w')"
    by (metis surj_pair)
  with assms obtain ids where r: "r = Inr ids" by (cases r) (simp_all add: u_evict_expired_def)
  from assms e r have m1: "m1 = m\<lparr>sessions := fold AList.delete ids (sessions m)\<rparr>" and w1: "w1 = w'"
    by (simp_all add: u_evict_expired_def)
  from m1 show "config m1 = config m" by simp
  from expired_ids_world[OF e] w1 show "objects w1 = objects w" and "ticks w \<le> ticks w1" by simp_all
  from m1 e r w1 show "\<exists>ids. expired_ids env (session_ttl_minutes (config m)) (sessions m) w = (Inr ids, w1)
           \<and> sessions m1 = fold AList.delete ids (sessions m)"
    by simp
qed

lemma u_evict_expired_raises:
  assumes "u_evict_expired env m w = (Inl exn, w1)"
  shows "objects w1 = objects w" and "ticks w \<le> ticks w1"
proof -
  obtain r w' where e: "expired_ids env (session_ttl_minutes (config m)) (sessions m) w = (r, w')"
    by (metis surj_pair)
  with assms have "w1 = w'" by (cases r) (simp_all add: u_evict_expired_def)
  with expired_ids_world[OF e] show "objects w1 = objects w" and "ticks w \<le> ticks w1" by simp_all
qed

lemma u_evict_expired_subset:
  assumes "u_evict_expired env m w = (Inr m1, w1)"
  shows "set (sessions m1) \<subseteq> set (sessions m)"
  using u_evict_expired_sessions(4)[OF assms] fold_delete_subset by fastforce

lemma u_evict_expired_in_range:
  assumes "ttl_in_range (config m)"
  shows "\<exists>m1. u_evict_expired env m w = (Inr m1, w\<lparr>ticks := ticks w + length (sessions m)\<rparr>)"
proof -
  from assms expired_ids_in_range[of "session_ttl_minutes (config m)" env "sessions m" w]
  obtain ids where "expired_ids env (session_ttl_minutes (config m)) (sessions m) w
      = (Inr ids, w\<lparr>ticks := ticks w + length (sessions m)\<rparr>)"
    by (auto simp: ttl_in_range_def)
  then show ?thesis by (simp add: u_evict_expired_def)
qed

lemma list_sessions_ids:
  assumes "list_sessions env m w = (Inr l, m', w')"
  shows "set (map sum_session_id l) \<subseteq> (session_id \<circ> snd) ` set (sessions m)"
proof -
  obtain r w1 where e: "u_evict_expired env m w = (r, w1)" by (metis surj_pair)
  with assms obtain m1 where r: "r = Inr m1" by (cases r) (simp_all add: list_sessions_def)
  from assms e r have "map sum_session_id l = map (session_id \<circ> snd) (sessions m1)"
    by (auto simp: list_sessions_def)
  then have "set (map sum_session_id l) = (session_id \<circ> snd) ` set (sessions m1)"
    by simp
  with u_evict_expired_subset[OF e[unfolded r]] show ?thesis by blast
qed

lemma list_sessions_in_range:
  assumes "ttl_in_range (config m)"
  shows "\<exists>l m' w'. list_sessions env m w = (Inr l, m', w')"
proof -
  from u_evict_expired_in_range[OF assms, of env w] obtain m1
    where "u_evict_expired env m w = (Inr m1, w\<lparr>ticks := ticks w + length (sessions m)\<rparr>)" by blast
  then show ?thesis by (simp add: list_sessions_def)
qed

lemma update_append_fresh: "k \<notin> fst ` set al \<Longrightarrow> AList.update k v al = al @ [(k, v)]"
  by (induction al) auto

subsection \<open>Looking a session up\<close>

lemma get_session_unknown:
  "map_of (sessions m) sid = None \<Longrightarrow> get_session env sid m w = (Inr None, m, w)"
  by (simp add: get_session_def)

lemma get_session_raises:
  "map_of (sessions m) sid = Some s \<Longrightarrow>
   is_expired s (session_ttl_minutes (config m)) (clock env (ticks w)) = Inl exn \<Longrightarrow>
   get_session env sid m w = (Inl exn, m, w\<lparr>ticks := Suc (ticks w)\<rparr>)"
  by (simp add: get_session_def now_def)

lemma get_session_expired:
  "map_of (sessions m) sid = Some s \<Longrightarrow>
   is_expired s (session_ttl_minutes (config m)) (clock env (ticks w)) = Inr True \<Longrightarrow>
   get_session env sid m w =
     (Inr None, m\<lparr>sessions := AList.delete sid (sessions m)\<rparr>, w\<lparr>ticks := Suc (ticks w)\<rparr>)"
  by (simp add: get_session_def now_def)

lemma get_session_live:
  "map_of (sessions m) sid = Some s \<Longrightarrow>
   is_expired s (session_ttl_minutes (config m)) (clock env (ticks w)) = Inr False \<Longrightarrow>
   get_session env sid m w =
     (Inr (Some (s\<lparr>last_used := clock env (Suc (ticks w))\<rparr>)),
      m\<lparr>sessions := AList.update sid (s\<lparr>last_used := clock env (Suc (ticks w))\<rparr>) (sessions m)\<rparr>,
      w\<lparr>ticks := Suc (Suc (ticks w))\<rparr>)"
  by (simp add: get_session_def now_def touch_def Let_def)

lemma not_listed_after_delete:
  assumes "filed_by_id m"
    and "list_sessions env (m\<lparr>sessions := AList.delete sid (sessions m)\<rparr>) w = (Inr l, m'', w3)"
  shows "sid \<notin> set (map sum_session_id l)"
proof
  assume "sid \<in> set (map sum_session_id l)"
  with list_sessions_ids[OF assms(2)]
  obtain k s where ks: "(k, s) \<in> set (AList.delete sid (sessions m))" and id: "session_id s = sid"
    by auto
  from ks have "(k, s) \<in> set (sessions m)" and "k \<noteq> sid" by (auto simp: AList.delete_eq)
  with assms(1) id show False by (auto simp: filed_by_id_def)
qed

text \<open>
  Claim C9. A lookup of an identifier that the store does not hold returns nothing and
  leaves the store and the world as they were. Under a TTL that \<open>timedelta\<close> can represent,
  a lookup of a session whose idle time, at the reading of the clock taken by the lookup,
  exceeds the TTL returns nothing and deletes the entry; the identifier then resolves to
  nothing, and where every session is filed under its own identifier every later listing
  returns and does not show it. Under such a TTL a lookup of a live session sets its
  \<open>last_used\<close> to the next reading of the clock, in the store as in the session returned.
\<close>

theorem get_session_lookup:
  "(map_of (sessions m) sid = None \<longrightarrow> get_session env sid m w = (Inr None, m, w))
   \<and> (ttl_in_range (config m) \<and> map_of (sessions m) sid = Some s
        \<and> clock env (ticks w) - last_used s > session_ttl_minutes (config m) * 60000000 \<longrightarrow>
        (\<exists>m' w'. get_session env sid m w = (Inr None, m', w')
           \<and> sessions m' = AList.delete sid (sessions m)
           \<and> map_of (sessions m') sid = None
           \<and> (\<forall>k. k \<noteq> sid \<longrightarrow> map_of (sessions m') k = map_of (sessions m) k)
           \<and> (filed_by_id m \<longrightarrow>
                (\<forall>w''. \<exists>l m'' w3. list_sessions env m' w'' = (Inr l, m'', w3)
                          \<and> sid \<notin> set (map sum_session_id l)))))
   \<and> (ttl_in_range (config m) \<and> map_of (sessions m) sid = Some s
        \<and> \<not> clock env (ticks w) - last_used s > session_ttl_minutes (config m) * 60000000 \<longrightarrow>
        (\<exists>s' m' w'. get_session env sid m w = (Inr (Some s'), m', w')
           \<and> s' = s\<lparr>last_used := clock env (Suc (ticks w))\<rparr>
           \<and> map_of (sessions m') sid = Some s'
           \<and> (\<forall>k. k \<noteq> sid \<longrightarrow> map_of (sessions m') k = map_of (sessions m) k)))"
proof (intro conjI impI)
  assume "map_of (sessions m) sid = None"
  then show "get_session env sid m w = (Inr None, m, w)" by (rule get_session_unknown)
next
  assume a: "ttl_in_range (config m) \<and> map_of (sessions m) sid = Some s
        \<and> clock env (ticks w) - last_used s > session_ttl_minutes (config m) * 60000000"
  then have ex: "is_expired s (session_ttl_minutes (config m)) (clock env (ticks w)) = Inr True"
    by (simp add: is_expired_config)
  let ?m' = "m\<lparr>sessions := AList.delete sid (sessions m)\<rparr>"
  from a ex have g: "get_session env sid m w = (Inr None, ?m', w\<lparr>ticks := Suc (ticks w)\<rparr>)"
    by (simp add: get_session_expired)
  have l: "filed_by_id m \<longrightarrow>
        (\<forall>w''. \<exists>l m'' w3. list_sessions env ?m' w'' = (Inr l, m'', w3)
                          \<and> sid \<notin> set (map sum_session_id l))"
  proof (intro impI allI)
    fix w''
    assume f: "filed_by_id m"
    from a have "ttl_in_range (config ?m')" by simp
    from list_sessions_in_range[OF this, of env w''] obtain l m'' w3
      where ls: "list_sessions env ?m' w'' = (Inr l, m'', w3)" by (elim exE)
    from not_listed_after_delete[OF f ls] have "sid \<notin> set (map sum_session_id l)" .
    with ls show "\<exists>l m'' w3. list_sessions env ?m' w'' = (Inr l, m'', w3)
                          \<and> sid \<notin> set (map sum_session_id l)"
      by (intro exI conjI)
  qed
  have s1: "sessions ?m' = AList.delete sid (sessions m)" by simp
  have s2: "map_of (sessions ?m') sid = None" by (simp add: AList.delete_conv')
  have s3: "\<forall>k. k \<noteq> sid \<longrightarrow> map_of (sessions ?m') k = map_of (sessions m) k"
    by (simp add: AList.delete_conv')
  show "\<exists>m' w'. get_session env sid m w = (Inr None, m', w')
           \<and> sessions m' = AList.delete sid (sessions m)
           \<and> map_of (sessions m') sid = None
           \<and> (\<forall>k. k \<noteq> sid \<longrightarrow> map_of (sessions m') k = map_of (sessions m) k)
           \<and> (filed_by_id m \<longrightarrow>
                (\<forall>w''. \<exists>l m'' w3. list_sessions env m' w'' = (Inr l, m'', w3)
                          \<and> sid \<notin> set (map sum_session_id l)))"
    by (intro exI conjI) (rule g s1 s2 s3 l)+
next
  assume a: "ttl_in_range (config m) \<and> map_of (sessions m) sid = Some s
        \<and> \<not> clock env (ticks w) - last_used s > session_ttl_minutes (config m) * 60000000"
  then have ex: "is_expired s (session_ttl_minutes (config m)) (clock env (ticks w)) = Inr False"
    by (simp add: is_expired_config)
  let ?s' = "s\<lparr>last_used := clock env (Suc (ticks w))\<rparr>"
  let ?m' = "m\<lparr>sessions := AList.update sid ?s' (sessions m)\<rparr>"
  from a ex have g: "get_session env sid m w = (Inr (Some ?s'), ?m', w\<lparr>ticks := Suc (Suc (ticks w))\<rparr>)"
    by (simp add: get_session_live)
  have s1: "map_of (sessions ?m') sid = Some ?s'" by (simp add: AList.update_conv')
  have s2: "\<forall>k. k \<noteq> sid \<longrightarrow> map_of (sessions ?m') k = map_of (sessions m) k"
    by (simp add: AList.update_conv')
  show "\<exists>s' m' w'. get_session env sid m w = (Inr (Some s'), m', w')
           \<and> s' = s\<lparr>last_used := clock env (Suc (ticks w))\<rparr>
           \<and> map_of (sessions m') sid = Some s'
           \<and> (\<forall>k. k \<noteq> sid \<longrightarrow> map_of (sessions m') k = map_of (sessions m) k)"
    by (intro exI conjI) (rule g refl s1 s2)+
qed

lemma mixed_manager_filed: "filed_by_id mixed_manager"
  by (simp add: filed_by_id_def mixed_manager_def stale_session_def live_session_def)

lemma mixed_manager_ttl: "ttl_in_range (config mixed_manager)"
  by (simp add: ttl_in_range_def mixed_manager_def demo_config_def default_Config_def)

theorem get_session_lookup_witness:
  "map_of (sessions mixed_manager) ''zzzzzzzzzzzz'' = None
   \<and> get_session demo_env ''zzzzzzzzzzzz'' mixed_manager demo_world
       = (Inr None, mixed_manager, demo_world)
   \<and> ttl_in_range (config mixed_manager)
   \<and> map_of (sessions mixed_manager) ''aaaaaaaaaaaa'' = Some (stale_session ''aaaaaaaaaaaa'')
   \<and> clock demo_env (ticks demo_world) - last_used (stale_session ''aaaaaaaaaaaa'')
        > session_ttl_minutes (config mixed_manager) * 60000000
   \<and> filed_by_id mixed_manager
   \<and> (\<exists>m' w'. get_session demo_env ''aaaaaaaaaaaa'' mixed_manager demo_world = (Inr None, m', w')
        \<and> map_of (sessions m') ''aaaaaaaaaaaa'' = None
        \<and> (\<exists>l m'' w3. list_sessions demo_env m' w' = (Inr l, m'', w3)
             \<and> ''aaaaaaaaaaaa'' \<notin> set (map sum_session_id l)))
   \<and> map_of (sessions mixed_manager) ''bbbbbbbbbbbb''
        = Some (live_session ''bbbbbbbbbbbb'' 9100000000 9200000000)
   \<and> \<not> clock demo_env (ticks demo_world) - last_used (live_session ''bbbbbbbbbbbb'' 9100000000 9200000000)
        > session_ttl_minutes (config mixed_manager) * 60000000
   \<and> (\<exists>s' m' w'. get_session demo_env ''bbbbbbbbbbbb'' mixed_manager demo_world
                    = (Inr (Some s'), m', w')
        \<and> last_used s' = 10000000001 \<and> map_of (sessions m') ''bbbbbbbbbbbb'' = Some s')"
proof -
  have z: "map_of (sessions mixed_manager) ''zzzzzzzzzzzz'' = None"
    by (simp add: mixed_manager_def)
  have a: "map_of (sessions mixed_manager) ''aaaaaaaaaaaa'' = Some (stale_session ''aaaaaaaaaaaa'')"
    by (simp add: mixed_manager_def)
  have a': "clock demo_env (ticks demo_world) - last_used (stale_session ''aaaaaaaaaaaa'')
        > session_ttl_minutes (config mixed_manager) * 60000000"
    by (simp add: mixed_manager_def demo_env_def demo_world_def stale_session_def demo_config_def
        default_Config_def)
  have b: "map_of (sessions mixed_manager) ''bbbbbbbbbbbb''
        = Some (live_session ''bbbbbbbbbbbb'' 9100000000 9200000000)"
    by (simp add: mixed_manager_def)
  have b': "\<not> clock demo_env (ticks demo_world) - last_used (live_session ''bbbbbbbbbbbb'' 9100000000 9200000000)
        > session_ttl_minutes (config mixed_manager) * 60000000"
    by (simp add: mixed_manager_def demo_env_def demo_world_def live_session_def demo_config_def
        default_Config_def)
  note t = get_session_lookup[of mixed_manager _ demo_env demo_world]
  from t[of "''zzzzzzzzzzzz''", THEN conjunct1, THEN mp, OF z]
  have r1: "get_session demo_env ''zzzzzzzzzzzz'' mixed_manager demo_world
              = (Inr None, mixed_manager, demo_world)" .
  from t[of "''aaaaaaaaaaaa''", THEN conjunct2, THEN conjunct1, THEN mp,
      OF conjI[OF mixed_manager_ttl conjI[OF a a']]]
  obtain m' w' where g: "get_session demo_env ''aaaaaaaaaaaa'' mixed_manager demo_world = (Inr None, m', w')"
    and n: "map_of (sessions m') ''aaaaaaaaaaaa'' = None"
    and l: "filed_by_id mixed_manager \<longrightarrow>
                (\<forall>w''. \<exists>l m'' w3. list_sessions demo_env m' w'' = (Inr l, m'', w3)
                          \<and> ''aaaaaaaaaaaa'' \<notin> set (map sum_session_id l))"
    by (elim exE conjE) (rule that, assumption+)
  from l[THEN mp, OF mixed_manager_filed, THEN spec, of w']
  have l': "\<exists>l m'' w3. list_sessions demo_env m' w' = (Inr l, m'', w3)
             \<and> ''aaaaaaaaaaaa'' \<notin> set (map sum_session_id l)" .
  have r2: "\<exists>m' w'. get_session demo_env ''aaaaaaaaaaaa'' mixed_manager demo_world = (Inr None, m', w')
        \<and> map_of (sessions m') ''aaaaaaaaaaaa'' = None
        \<and> (\<exists>l m'' w3. list_sessions demo_env m' w' = (Inr l, m'', w3)
             \<and> ''aaaaaaaaaaaa'' \<notin> set (map sum_session_id l))"
    by (rule exI[of _ m'], rule exI[of _ w'], intro conjI) (rule g n l')+
  from t[of "''bbbbbbbbbbbb''", THEN conjunct2, THEN conjunct2, THEN mp,
      OF conjI[OF mixed_manager_ttl conjI[OF b b']]]
  obtain s' m' w' where g: "get_session demo_env ''bbbbbbbbbbbb'' mixed_manager demo_world
                              = (Inr (Some s'), m', w')"
    and s': "s' = (live_session ''bbbbbbbbbbbb'' 9100000000 9200000000)\<lparr>last_used := clock demo_env (Suc (ticks demo_world))\<rparr>"
    and ms: "map_of (sessions m') ''bbbbbbbbbbbb'' = Some s'"
    by (elim exE conjE) (rule that, assumption+)
  from s' have lu: "last_used s' = 10000000001" by (simp add: demo_env_def demo_world_def)
  have r3: "\<exists>s' m' w'. get_session demo_env ''bbbbbbbbbbbb'' mixed_manager demo_world
                    = (Inr (Some s'), m', w')
        \<and> last_used s' = 10000000001 \<and> map_of (sessions m') ''bbbbbbbbbbbb'' = Some s'"
    by (intro exI conjI) (rule g lu ms)+
  show ?thesis
    by (intro conjI) (rule z r1 mixed_manager_ttl a a' mixed_manager_filed r2 b b' r3)+
qed

theorem get_session_ttl_overflow_counterexample:
  "map_of (sessions far_ttl_manager) ''bbbbbbbbbbbb''
     = Some (live_session ''bbbbbbbbbbbb'' 9100000000 9200000000)
   \<and> session_ttl_minutes (config far_ttl_manager) = 1440000000000
   \<and> get_session demo_env ''bbbbbbbbbbbb'' far_ttl_manager demo_world
       = (Inl ''OverflowError'', far_ttl_manager, demo_world\<lparr>ticks := 1\<rparr>)"
proof -
  have b: "map_of (sessions far_ttl_manager) ''bbbbbbbbbbbb''
     = Some (live_session ''bbbbbbbbbbbb'' 9100000000 9200000000)"
    by (simp add: far_ttl_manager_def mixed_manager_def)
  have t: "session_ttl_minutes (config far_ttl_manager) = 1440000000000"
    by (simp add: far_ttl_manager_def)
  have e: "is_expired (live_session ''bbbbbbbbbbbb'' 9100000000 9200000000)
             (session_ttl_minutes (config far_ttl_manager)) (clock demo_env (ticks demo_world))
           = Inl ''OverflowError''"
    unfolding t by (rule is_expired_out_of_range) simp
  from get_session_raises[OF b e]
  have "get_session demo_env ''bbbbbbbbbbbb'' far_ttl_manager demo_world
       = (Inl ''OverflowError'', far_ttl_manager, demo_world\<lparr>ticks := Suc (ticks demo_world)\<rparr>)" .
  then have g: "get_session demo_env ''bbbbbbbbbbbb'' far_ttl_manager demo_world
       = (Inl ''OverflowError'', far_ttl_manager, demo_world\<lparr>ticks := 1\<rparr>)"
    by (simp add: demo_world_def)
  show ?thesis by (intro conjI) (rule b t g)+
qed

subsection \<open>Creating a session in a full store\<close>







lemma create_session_full:
  assumes sweep: "u_evict_expired env m w = (Inr m1, w1)"
    and full: "int (length (sessions m1)) \<ge> max_sessions (config m)"
    and ne: "sessions m1 = x # xs"
  shows "create_session env uid m w =
     (Inr \<lparr>session_id = uid, created_at = clock env (ticks w1), last_used = clock env (ticks w1),
           namespace = [], history = []\<rparr>,
      m1\<lparr>sessions := AList.update uid
            \<lparr>session_id = uid, created_at = clock env (ticks w1), last_used = clock env (ticks w1),
             namespace = [], history = []\<rparr>
            (AList.delete (fst (py_min_from (\<lambda>(sid, s). last_used s) x xs)) (sessions m1))\<rparr>,
      w1\<lparr>ticks := Suc (ticks w1)\<rparr>)"
proof -
  from u_evict_expired_sessions(1)[OF sweep] full
  have f: "int (length (sessions m1)) \<ge> max_sessions (config m1)" by simp
  obtain oid old where p: "py_min_from (\<lambda>(sid, s). last_used s) x xs = (oid, old)"
    by (cases "py_min_from (\<lambda>(sid, s). last_used s) x xs")
  from sweep f ne p show ?thesis
    by (simp add: create_session_def py_min_def now_def Let_def)
qed

lemma create_session_room:
  assumes sweep: "u_evict_expired env m w = (Inr m1, w1)"
    and room: "int (length (sessions m1)) < max_sessions (config m)"
  shows "create_session env uid m w =
     (Inr \<lparr>session_id = uid, created_at = clock env (ticks w1), last_used = clock env (ticks w1),
           namespace = [], history = []\<rparr>,
      m1\<lparr>sessions := AList.update uid
            \<lparr>session_id = uid, created_at = clock env (ticks w1), last_used = clock env (ticks w1),
             namespace = [], history = []\<rparr> (sessions m1)\<rparr>,
      w1\<lparr>ticks := Suc (ticks w1)\<rparr>)"
proof -
  from u_evict_expired_sessions(1)[OF sweep] room
  have f: "\<not> int (length (sessions m1)) \<ge> max_sessions (config m1)" by simp
  from sweep f show ?thesis
    by (simp add: create_session_def now_def Let_def)
qed

lemma create_session_empty_full:
  assumes sweep: "u_evict_expired env m w = (Inr m1, w1)"
    and full: "int (length (sessions m1)) \<ge> max_sessions (config m)"
    and ne: "sessions m1 = []"
  shows "create_session env uid m w = (Inl ''ValueError'', m1, w1)"
proof -
  from u_evict_expired_sessions(1)[OF sweep] full
  have f: "int (length (sessions m1)) \<ge> max_sessions (config m1)" by simp
  from sweep f ne show ?thesis
    by (simp add: create_session_def py_min_def now_def Let_def)
qed






section \<open>Properties of the operations of the server\<close>

subsection \<open>Reserved names in the namespaces of the store\<close>

lemma set_update_subset: "set (AList.update k v al) \<subseteq> insert (k, v) (set al)"
  by (induction al) auto

lemma set_delete_subset: "set (AList.delete k al) \<subseteq> set al"
  by (auto simp: AList.delete_eq)




























lemma mixed_get_b:
  "get_session demo_env ''bbbbbbbbbbbb'' mixed_manager demo_world =
     (Inr (Some (live_session ''bbbbbbbbbbbb'' 9100000000 10000000001)),
      mixed_manager\<lparr>sessions := [(''aaaaaaaaaaaa'', stale_session ''aaaaaaaaaaaa''),
         (''bbbbbbbbbbbb'', live_session ''bbbbbbbbbbbb'' 9100000000 10000000001)]\<rparr>,
      demo_world\<lparr>ticks := 2\<rparr>)"
  by (simp add: get_session_def mixed_manager_def demo_env_def demo_world_def demo_config_def
      default_Config_def live_session_def stale_session_def is_expired_def timedelta_minutes_def
      now_def touch_def Let_def)


lemma mixed_run_code:
  "map (map fst \<circ> namespace \<circ> snd)
     (sessions (fst (snd (repl_run_code demo_env ''dddddddddddd'' ''x = 42'' (Some ''bbbbbbbbbbbb'')
        mixed_manager demo_world)))) = [[], [''x'']]"
  apply (simp add: repl_run_code_def get_or_create_def mixed_get_b)
  apply (simp add: run_in_session_def execute_code_def
      build_exec_ns_def put_session_def strip_def py_isspace_def u_record_def now_def
      mixed_manager_def demo_env_def demo_world_def demo_config_def default_Config_def
      live_session_def stale_session_def demo_run_def demo_heap_def alloc_def skipped_def Let_def)
  done






section \<open>The order of the store under a clock that never goes back\<close>

lemma mono_clock_le: "mono_clock env \<Longrightarrow> t \<le> t' \<Longrightarrow> clock env t \<le> clock env t'"
proof (induction t' )
  case 0
  then show ?case by simp
next
  case (Suc t')
  show ?case
  proof (cases "t = Suc t'")
    case True
    then show ?thesis by simp
  next
    case False
    with Suc.prems have "t \<le> t'" by simp
    from Suc.IH[OF Suc.prems(1) this] have "clock env t \<le> clock env t'" .
    moreover from Suc.prems(1) have "clock env t' \<le> clock env (Suc t')" by (simp add: mono_clock_def)
    ultimately show ?thesis by simp
  qed
qed

lemma sorted_map_delete: "sorted (map f xs) \<Longrightarrow> sorted (map f (AList.delete k xs))"
  by (simp add: AList.delete_eq sorted_filter)

lemma sorted_map_fold_delete: "sorted (map f xs) \<Longrightarrow> sorted (map f (fold AList.delete ids xs))"
  by (induction ids arbitrary: xs) (simp_all add: sorted_map_delete)

lemma map_update_same:
  "map_of xs k = Some s \<Longrightarrow> f (k, s') = f (k, s) \<Longrightarrow> map f (AList.update k s' xs) = map f xs"
  by (induction xs) (auto split: if_splits)

lemma creation_ordered_subset:
  assumes "creation_ordered env m w"
    and "sorted (map (created_at \<circ> snd) (sessions m'))"
    and "set (sessions m') \<subseteq> set (sessions m)"
    and "mono_clock env" and "ticks w \<le> ticks w'"
  shows "creation_ordered env m' w'"
proof -
  from mono_clock_le[OF assms(4) assms(5)] have "clock env (ticks w) \<le> clock env (ticks w')" .
  with assms(1) assms(3) have "\<forall>(sid, s)\<in>set (sessions m'). created_at s \<le> clock env (ticks w')"
    unfolding creation_ordered_def by fastforce
  with assms(2) show ?thesis by (simp add: creation_ordered_def)
qed

lemma creation_ordered_sweep:
  assumes "mono_clock env" and "creation_ordered env m w" and "u_evict_expired env m w = (Inr m1, w1)"
  shows "creation_ordered env m1 w1"
proof (rule creation_ordered_subset[OF assms(2)])
  from u_evict_expired_sessions(4)[OF assms(3)] obtain ids
    where ids: "sessions m1 = fold AList.delete ids (sessions m)" by (elim exE conjE)
  from assms(2) have "sorted (map (created_at \<circ> snd) (sessions m))" by (simp add: creation_ordered_def)
  then show "sorted (map (created_at \<circ> snd) (sessions m1))"
    unfolding ids by (rule sorted_map_fold_delete)
  show "set (sessions m1) \<subseteq> set (sessions m)" by (rule u_evict_expired_subset[OF assms(3)])
  show "mono_clock env" by (rule assms(1))
  show "ticks w \<le> ticks w1" by (rule u_evict_expired_sessions(3)[OF assms(3)])
qed

lemma creation_ordered_append:
  assumes "mono_clock env" and "creation_ordered env m w" and "uid \<notin> fst ` set (sessions m)"
    and "created_at new = clock env (ticks w)"
  shows "creation_ordered env (m\<lparr>sessions := AList.update uid new (sessions m)\<rparr>) (w\<lparr>ticks := Suc (ticks w)\<rparr>)"
proof -
  from assms(3) have app: "AList.update uid new (sessions m) = sessions m @ [(uid, new)]"
    by (rule update_append_fresh)
  from assms(2) have srt: "sorted (map (created_at \<circ> snd) (sessions m))"
    and le: "\<forall>(sid, s)\<in>set (sessions m). created_at s \<le> clock env (ticks w)"
    by (simp_all add: creation_ordered_def)
  from srt le assms(4) have "sorted (map (created_at \<circ> snd) (sessions m @ [(uid, new)]))"
    by (auto simp: sorted_append)
  moreover from assms(1) have "clock env (ticks w) \<le> clock env (Suc (ticks w))"
    by (simp add: mono_clock_def)
  with le assms(4) have "\<forall>(sid, s)\<in>set (sessions m @ [(uid, new)]). created_at s \<le> clock env (Suc (ticks w))"
    by fastforce
  ultimately show ?thesis by (simp add: creation_ordered_def app)
qed

lemma creation_ordered_create_session:
  assumes "mono_clock env" and "creation_ordered env m w" and "uid \<notin> fst ` set (sessions m)"
    and "create_session env uid m w = (r, m', w')"
  shows "creation_ordered env m' w'"
proof -
  obtain e w1 where e: "u_evict_expired env m w = (e, w1)" by (metis surj_pair)
  show ?thesis
  proof (cases e)
    case (Inl exn)
    with e assms(4) have m': "m' = m" and w': "w' = w1" by (simp_all add: create_session_def)
    from assms(2) have srt: "sorted (map (created_at \<circ> snd) (sessions m))"
      by (simp add: creation_ordered_def)
    from u_evict_expired_raises(2)[OF e[unfolded Inl]] have "ticks w \<le> ticks w1" .
    from creation_ordered_subset[OF assms(2) srt subset_refl assms(1) this] m' w'
    show ?thesis by simp
  next
    case (Inr m1)
    note sw = e[unfolded Inr]
    from creation_ordered_sweep[OF assms(1) assms(2) sw] have o1: "creation_ordered env m1 w1" .
    from u_evict_expired_subset[OF sw] assms(3) have f1: "uid \<notin> fst ` set (sessions m1)" by blast
    let ?new = "\<lparr>session_id = uid, created_at = clock env (ticks w1), last_used = clock env (ticks w1),
             namespace = [], history = []\<rparr>"
    show ?thesis
    proof (cases "int (length (sessions m1)) \<ge> max_sessions (config m)")
      case False
      then have "int (length (sessions m1)) < max_sessions (config m)" by simp
      from create_session_room[OF sw this, of uid] assms(4)
      have "m' = m1\<lparr>sessions := AList.update uid ?new (sessions m1)\<rparr>" and "w' = w1\<lparr>ticks := Suc (ticks w1)\<rparr>"
        by simp_all
      with creation_ordered_append[OF assms(1) o1 f1, of ?new] show ?thesis by simp
    next
      case True
      show ?thesis
      proof (cases "sessions m1")
        case Nil
        from create_session_empty_full[OF sw True Nil, of uid] assms(4)
        have "m' = m1" and "w' = w1" by simp_all
        with o1 show ?thesis by simp
      next
        case (Cons x xs)
        let ?oid = "fst (py_min_from (\<lambda>(sid, s). last_used s) x xs)"
        let ?m2 = "m1\<lparr>sessions := AList.delete ?oid (sessions m1)\<rparr>"
        from create_session_full[OF sw True Cons, of uid] assms(4)
        have m': "m' = ?m2\<lparr>sessions := AList.update uid ?new (sessions ?m2)\<rparr>"
          and w': "w' = w1\<lparr>ticks := Suc (ticks w1)\<rparr>"
          by simp_all
        from o1 have "sorted (map (created_at \<circ> snd) (sessions m1))" by (simp add: creation_ordered_def)
        then have s2: "sorted (map (created_at \<circ> snd) (sessions ?m2))" by (simp add: sorted_map_delete)
        have sub: "set (sessions ?m2) \<subseteq> set (sessions m1)" by (simp add: set_delete_subset)
        from creation_ordered_subset[OF o1 s2 sub assms(1)] have o2: "creation_ordered env ?m2 w1" by simp
        from sub f1 have f2: "uid \<notin> fst ` set (sessions ?m2)" by blast
        from creation_ordered_append[OF assms(1) o2 f2, of ?new] m' w' show ?thesis by simp
      qed
    qed
  qed
qed

lemma creation_ordered_get_session:
  assumes "mono_clock env" and "creation_ordered env m w" and "get_session env sid m w = (r, m', w')"
  shows "creation_ordered env m' w'"
proof (cases "map_of (sessions m) sid")
  case None
  from get_session_unknown[OF None, of env w] assms show ?thesis by simp
next
  case (Some s0)
  from assms(2) have srt: "sorted (map (created_at \<circ> snd) (sessions m))"
    and le: "\<forall>(sid, s)\<in>set (sessions m). created_at s \<le> clock env (ticks w)"
    by (simp_all add: creation_ordered_def)
  show ?thesis
  proof (cases "is_expired s0 (session_ttl_minutes (config m)) (clock env (ticks w))")
    case (Inl exn)
    from get_session_raises[OF Some Inl] assms(3)
    have m': "m' = m" and w': "w' = w\<lparr>ticks := Suc (ticks w)\<rparr>" by simp_all
    from w' have "ticks w \<le> ticks w'" by simp
    from creation_ordered_subset[OF assms(2) srt subset_refl assms(1) this] m' show ?thesis by simp
  next
    case (Inr b)
    show ?thesis
    proof (cases b)
      case True
      with Inr have "is_expired s0 (session_ttl_minutes (config m)) (clock env (ticks w)) = Inr True"
        by simp
      from get_session_expired[OF Some this] assms(3)
      have m': "m' = m\<lparr>sessions := AList.delete sid (sessions m)\<rparr>" and w': "w' = w\<lparr>ticks := Suc (ticks w)\<rparr>"
        by simp_all
      from srt m' have s2: "sorted (map (created_at \<circ> snd) (sessions m'))" by (simp add: sorted_map_delete)
      from m' have sub: "set (sessions m') \<subseteq> set (sessions m)" by (simp add: set_delete_subset)
      from w' have "ticks w \<le> ticks w'" by simp
      from creation_ordered_subset[OF assms(2) s2 sub assms(1) this] show ?thesis .
    next
      case False
      with Inr
      have live: "is_expired s0 (session_ttl_minutes (config m)) (clock env (ticks w)) = Inr False"
        by simp
      let ?s' = "s0\<lparr>last_used := clock env (Suc (ticks w))\<rparr>"
      from get_session_live[OF Some live] assms(3)
      have m': "m' = m\<lparr>sessions := AList.update sid ?s' (sessions m)\<rparr>"
        and w': "w' = w\<lparr>ticks := Suc (Suc (ticks w))\<rparr>"
        by simp_all
      have same: "map (created_at \<circ> snd) (AList.update sid ?s' (sessions m)) = map (created_at \<circ> snd) (sessions m)"
        by (rule map_update_same[OF Some]) simp
      from mono_clock_le[OF assms(1), of "ticks w" "Suc (Suc (ticks w))"]
      have up: "clock env (ticks w) \<le> clock env (Suc (Suc (ticks w)))" by simp
      from map_of_SomeD[OF Some] le have "created_at s0 \<le> clock env (ticks w)" by auto
      then have c0: "created_at ?s' \<le> clock env (ticks w)" by simp
      have "\<forall>(k, s)\<in>set (AList.update sid ?s' (sessions m)). created_at s \<le> clock env (ticks w)"
      proof (clarify)
        fix k s assume "(k, s) \<in> set (AList.update sid ?s' (sessions m))"
        with set_update_subset[of sid ?s' "sessions m"] have "(k, s) = (sid, ?s') \<or> (k, s) \<in> set (sessions m)"
          by blast
        with c0 le show "created_at s \<le> clock env (ticks w)" by auto
      qed
      with up have "\<forall>(k, s)\<in>set (AList.update sid ?s' (sessions m)). created_at s \<le> clock env (Suc (Suc (ticks w)))"
        by fastforce
      with srt same m' w' show ?thesis by (simp add: creation_ordered_def)
    qed
  qed
qed

end
